theory Spec2Isabelle
  imports Complex_Main
begin

section \<open>JavaScript numbers\<close>

text \<open>
  A JavaScript \<^verbatim>\<open>number\<close> is an IEEE 754 double: NaN, the two infinities, the two zeros
  (the flag is the sign, \<open>True\<close> for minus), or a non-zero rational that a double
  represents. A numeric field that is missing from a stored object reads as
  \<^verbatim>\<open>undefined\<close>, which every arithmetic operator below turns into NaN and which
  \<^verbatim>\<open>||\<close> treats like NaN; a missing field is therefore modelled as \<open>NaN\<close>.
\<close>

datatype number = NaN | Infinity bool | Zero bool | Nonzero rat

text \<open>
  Rounding to the nearest double, ties to even. For \<open>r \<noteq> 0\<close>, the spacing of the doubles
  around \<open>\<bar>r\<bar>\<close> is \<open>2 ^ e\<close> with \<open>e = max \<lfloor>log\<^sub>2 \<bar>r\<bar>\<rfloor> (-1022) - 52\<close> (53 significant
  bits, the least exponent being that of the subnormal numbers); \<open>\<bar>r\<bar>\<close> is rounded to the
  multiple \<open>m * 2 ^ e\<close>. The largest double is \<open>(2 ^ 53 - 1) * 2 ^ 971\<close>, so the result
  overflows to an infinity when \<open>e > 971\<close>, or \<open>e = 971\<close> and \<open>m = 2 ^ 53\<close>; it is a zero
  with the sign of \<open>r\<close> when \<open>m = 0\<close>.
\<close>

definition pow2 :: "int \<Rightarrow> rat" where
  "pow2 e = (if 0 \<le> e then 2 ^ nat e else 1 / 2 ^ nat (- e))"

function ilog2 :: "int \<Rightarrow> int" where
  "ilog2 n = (if n < 2 then 0 else 1 + ilog2 (n div 2))"
  by pat_completeness auto
termination
  by (relation "measure nat") auto

declare ilog2.simps [simp del]

text \<open>\<open>\<lfloor>log\<^sub>2 a\<rfloor>\<close> for a positive rational \<open>a\<close>.\<close>

definition floor_log2 :: "rat \<Rightarrow> int" where
  "floor_log2 a =
     (if 1 \<le> a then ilog2 \<lfloor>a\<rfloor> else - (1 + ilog2 (\<lceil>1 / a\<rceil> - 1)))"

definition roundHalfEven :: "rat \<Rightarrow> int" where
  "roundHalfEven q =
     (let f = \<lfloor>q\<rfloor>; d = q - of_int f
      in if d < 1 / 2 then f else if 1 / 2 < d then f + 1
         else if even f then f else f + 1)"

definition round_double :: "rat \<Rightarrow> number" where
  "round_double r =
     (let e = max (floor_log2 \<bar>r\<bar>) (- 1022) - 52;
          m = roundHalfEven (\<bar>r\<bar> / pow2 e);
          negative = (r < 0)
      in if m = 0 then Zero negative
         else if 971 < e \<or> (e = 971 \<and> 2 ^ 53 \<le> m) then Infinity negative
         else Nonzero ((if negative then - 1 else 1) * (of_int m * pow2 e)))"

text \<open>
  The operators \<^verbatim>\<open>+\<close>, \<^verbatim>\<open>-\<close>, \<^verbatim>\<open>*\<close> and \<^verbatim>\<open>/\<close> on numbers: the exact result, rounded.
  A sum that is exactly zero is \<open>+0\<close> unless both summands are \<open>-0\<close>.
\<close>

fun num_neg :: "number \<Rightarrow> number" where
  "num_neg NaN = NaN"
| "num_neg (Infinity s) = Infinity (\<not> s)"
| "num_neg (Zero s) = Zero (\<not> s)"
| "num_neg (Nonzero x) = Nonzero (- x)"

fun num_add :: "number \<Rightarrow> number \<Rightarrow> number" where
  "num_add NaN y = NaN"
| "num_add x NaN = NaN"
| "num_add (Infinity s) (Infinity t) = (if s = t then Infinity s else NaN)"
| "num_add (Infinity s) y = Infinity s"
| "num_add x (Infinity t) = Infinity t"
| "num_add (Zero s) (Zero t) = Zero (s \<and> t)"
| "num_add (Zero s) (Nonzero y) = round_double y"
| "num_add (Nonzero x) (Zero t) = round_double x"
| "num_add (Nonzero x) (Nonzero y) = (if x + y = 0 then Zero False else round_double (x + y))"

definition num_sub :: "number \<Rightarrow> number \<Rightarrow> number" where
  "num_sub x y = num_add x (num_neg y)"

fun num_mul :: "number \<Rightarrow> number \<Rightarrow> number" where
  "num_mul NaN y = NaN"
| "num_mul x NaN = NaN"
| "num_mul (Infinity s) (Infinity t) = Infinity (s \<noteq> t)"
| "num_mul (Infinity s) (Zero t) = NaN"
| "num_mul (Zero s) (Infinity t) = NaN"
| "num_mul (Infinity s) (Nonzero y) = Infinity (s \<noteq> (y < 0))"
| "num_mul (Nonzero x) (Infinity t) = Infinity ((x < 0) \<noteq> t)"
| "num_mul (Zero s) (Zero t) = Zero (s \<noteq> t)"
| "num_mul (Zero s) (Nonzero y) = Zero (s \<noteq> (y < 0))"
| "num_mul (Nonzero x) (Zero t) = Zero ((x < 0) \<noteq> t)"
| "num_mul (Nonzero x) (Nonzero y) = round_double (x * y)"

fun num_div :: "number \<Rightarrow> number \<Rightarrow> number" where
  "num_div NaN y = NaN"
| "num_div x NaN = NaN"
| "num_div (Infinity s) (Infinity t) = NaN"
| "num_div (Infinity s) (Zero t) = Infinity (s \<noteq> t)"
| "num_div (Infinity s) (Nonzero y) = Infinity (s \<noteq> (y < 0))"
| "num_div (Zero s) (Infinity t) = Zero (s \<noteq> t)"
| "num_div (Nonzero x) (Infinity t) = Zero ((x < 0) \<noteq> t)"
| "num_div (Zero s) (Zero t) = NaN"
| "num_div (Nonzero x) (Zero t) = Infinity ((x < 0) \<noteq> t)"
| "num_div (Zero s) (Nonzero y) = Zero (s \<noteq> (y < 0))"
| "num_div (Nonzero x) (Nonzero y) = round_double (x / y)"

text \<open>
  \<^verbatim>\<open>x || 0\<close>: the falsy numbers NaN, \<open>+0\<close> and \<open>-0\<close> are replaced by the literal 0.
  \<^verbatim>\<open>x < y\<close> and \<^verbatim>\<open>Math.max(x, y)\<close>, for which \<open>+0\<close> is larger than \<open>-0\<close>. The number
  of elements of an array is a non-negative integer below \<open>2 ^ 32\<close>, hence a double.
\<close>

fun falsy :: "number \<Rightarrow> bool" where
  "falsy NaN = True"
| "falsy (Zero s) = True"
| "falsy _ = False"

definition or_zero :: "number \<Rightarrow> number" where
  "or_zero x = (if falsy x then Zero False else x)"


fun value_of :: "number \<Rightarrow> rat" where
  "value_of (Nonzero x) = x"
| "value_of _ = 0"

fun num_less :: "number \<Rightarrow> number \<Rightarrow> bool" where
  "num_less NaN y = False"
| "num_less x NaN = False"
| "num_less (Infinity s) (Infinity t) = (s \<and> \<not> t)"
| "num_less (Infinity s) y = s"
| "num_less x (Infinity t) = (\<not> t)"
| "num_less x y = (value_of x < value_of y)"

definition Math_max :: "number \<Rightarrow> number \<Rightarrow> number" where
  "Math_max x y =
     (if x = NaN \<or> y = NaN then NaN
      else if num_less x y then y
      else if num_less y x then x
      else if x = Zero True then y else x)"

definition number_of_nat :: "nat \<Rightarrow> number" where
  "number_of_nat n = (if n = 0 then Zero False else Nonzero (of_nat n))"

section \<open>Data model (types.ts)\<close>

text \<open>
  The interfaces of \<^verbatim>\<open>types.ts\<close> as records. Every interface of the source has a field
  \<^verbatim>\<open>id\<close>; record fields share one name space and \<open>id\<close> is the identity function of
  HOL, so the identifier fields are \<open>item_id\<close>, \<open>client_id\<close>, \<open>project_id\<close> and
  \<open>inv_id\<close>, and the fields of \<^verbatim>\<open>Project\<close> that repeat a name of another interface carry
  the prefix \<open>project_\<close>. An optional field (\<^verbatim>\<open>pages?\<close>, \<^verbatim>\<open>projectId?\<close>,
  \<^verbatim>\<open>businessLogo?\<close>) is an \<open>option\<close>. Every field of type \<^verbatim>\<open>number\<close> is a \<open>number\<close>.
\<close>

record InvoiceItem =
  item_id :: string
  description :: string
  quantity :: number
  price :: number
  images :: "string list"
  pages :: "number option"

record Client =
  client_id :: string
  name :: string
  company :: string
  address :: string
  email :: string
  phone :: string

datatype ProjectStatus = Not_Started | In_Progress | Pending_Review | Completed

record Project =
  project_id :: string
  title :: string
  clientId :: string
  clientName :: string
  project_status :: ProjectStatus
  project_dueDate :: string
  project_description :: string
  progress :: number

datatype InvoiceStatus = DRAFT | PENDING | PAID | OVERDUE

record BankDetails =
  bankName :: string
  accountName :: string
  accountNumber :: string
  branch :: string

record InvoiceData =
  inv_id :: string
  invoiceNumber :: string
  date :: string
  dueDate :: string
  projectId :: "string option"
  client :: Client
  items :: "InvoiceItem list"
  taxRate :: number
  discount :: number
  status :: InvoiceStatus
  bankDetails :: BankDetails

record AppSettings =
  businessName :: string
  businessAddress :: string
  contactEmail :: string
  businessLogo :: "string option"
  defaultBank :: BankDetails
  defaultImagePrice :: number

section \<open>Financial calculator\<close>

text \<open>
  The same three lines occur in four components. Each is embedded from its own place in
  the source: \<^verbatim>\<open>calculateInvoiceTotal\<close> of the dashboard, \<^verbatim>\<open>calculateTotal\<close> of the
  invoice list, and the \<^verbatim>\<open>subtotal\<close>/\<^verbatim>\<open>taxAmount\<close>/\<^verbatim>\<open>total\<close> constants of the editor
  and of the preview. \<^verbatim>\<open>reduce\<close> with a start value is a left fold; the operators are
  those of double arithmetic, in the order in which JavaScript evaluates them.
\<close>

definition calculateInvoiceTotal :: "InvoiceData \<Rightarrow> number" where
  "calculateInvoiceTotal invoice =
     (let subtotal = foldl (\<lambda>acc item. num_add acc (num_mul (price item) (quantity item)))
                       (Zero False) (items invoice);
          taxAmount = num_mul subtotal (num_div (taxRate invoice) (Nonzero 100))
      in num_sub (num_add subtotal taxAmount) (or_zero (discount invoice)))"














section \<open>Paginator (InvoicePreview)\<close>

definition PAGE_HEIGHT_ESTIMATE :: nat where "PAGE_HEIGHT_ESTIMATE = 1050"
definition HEADER_HEIGHT :: nat where "HEADER_HEIGHT = 200"
definition FOOTER_HEIGHT :: nat where "FOOTER_HEIGHT = 140"
definition ITEM_BASE_HEIGHT :: nat where "ITEM_BASE_HEIGHT = 45"
definition ITEM_IMAGE_ROW_HEIGHT :: nat where "ITEM_IMAGE_ROW_HEIGHT = 160"

text \<open>\<^verbatim>\<open>Math.ceil(item.images.length / 5)\<close> and the item's estimated height.\<close>

definition imageRows :: "InvoiceItem \<Rightarrow> nat" where
  "imageRows item = nat \<lceil>real (length (images item)) / 5\<rceil>"

definition itemHeight :: "InvoiceItem \<Rightarrow> nat" where
  "itemHeight item = ITEM_BASE_HEIGHT + (imageRows item * ITEM_IMAGE_ROW_HEIGHT)"

text \<open>
  The loop state is the triple of the three mutable variables \<^verbatim>\<open>chunkedPages\<close>,
  \<^verbatim>\<open>currentPageItems\<close> and \<^verbatim>\<open>currentHeight\<close>; \<open>placeItem\<close> is the body of the
  \<^verbatim>\<open>forEach\<close>. The literal 80 of the source is the top margin of every page after a
  break.
\<close>

type_synonym pstate = "InvoiceItem list list \<times> InvoiceItem list \<times> nat"

fun placeItem :: "pstate \<Rightarrow> InvoiceItem \<Rightarrow> pstate" where
  "placeItem (chunkedPages, currentPageItems, currentHeight) item =
     (if currentHeight + itemHeight item > PAGE_HEIGHT_ESTIMATE
      then (chunkedPages @ [currentPageItems], [item], 80 + itemHeight item)
      else (chunkedPages, currentPageItems @ [item], currentHeight + itemHeight item))"

definition placeAll :: "InvoiceItem list \<Rightarrow> pstate" where
  "placeAll its = foldl placeItem ([], [], HEADER_HEIGHT) its"

definition InvoicePreview_pages :: "InvoiceData \<Rightarrow> InvoiceItem list list" where
  "InvoicePreview_pages data =
     (case placeAll (items data) of (chunkedPages, currentPageItems, currentHeight) \<Rightarrow>
        (let chunkedPages1 =
               (if length currentPageItems > 0 then chunkedPages @ [currentPageItems]
                else chunkedPages)
         in if currentHeight + FOOTER_HEIGHT > PAGE_HEIGHT_ESTIMATE
            then chunkedPages1 @ [[]] else chunkedPages1))"

text \<open>
  Vocabulary for the properties of the paginator. A page's estimated height is the start
  value of the accumulator for that page (the header height on the first page, the top
  margin 80 after a break) plus the estimated heights of its items. \<open>itemPages\<close> are the
  pages present after the loop and the push of the last open page, \<open>finalHeight\<close> is
  the accumulator at that point.
\<close>

definition pageStart :: "nat \<Rightarrow> nat" where
  "pageStart i = (if i = 0 then HEADER_HEIGHT else 80)"

definition pageHeight :: "nat \<Rightarrow> InvoiceItem list \<Rightarrow> nat" where
  "pageHeight i page = pageStart i + sum_list (map itemHeight page)"

definition itemPages :: "InvoiceData \<Rightarrow> InvoiceItem list list" where
  "itemPages data =
     (case placeAll (items data) of (chunkedPages, currentPageItems, currentHeight) \<Rightarrow>
        if length currentPageItems > 0 then chunkedPages @ [currentPageItems]
        else chunkedPages)"

definition finalHeight :: "InvoiceData \<Rightarrow> nat" where
  "finalHeight data =
     (case placeAll (items data) of (chunkedPages, currentPageItems, currentHeight) \<Rightarrow>
        currentHeight)"

text \<open>
  A page is within the budget, or it is a page after the first that holds exactly one
  item, which does not fit under the top margin. \<open>placed\<close> is the invariant of the
  placement loop.
\<close>

definition page_ok :: "nat \<Rightarrow> InvoiceItem list \<Rightarrow> bool" where
  "page_ok i page =
     (pageHeight i page \<le> PAGE_HEIGHT_ESTIMATE
      \<or> (0 < i \<and> length page = 1 \<and> PAGE_HEIGHT_ESTIMATE < 80 + itemHeight (hd page)))"

fun placed :: "pstate \<Rightarrow> bool" where
  "placed (chunkedPages, currentPageItems, currentHeight) =
     (currentHeight = pageHeight (length chunkedPages) currentPageItems
      \<and> page_ok (length chunkedPages) currentPageItems
      \<and> (\<forall>i < length chunkedPages. page_ok i (chunkedPages ! i)))"

section \<open>Invoice editor (InvoiceEditor.tsx)\<close>

text \<open>
  \<^verbatim>\<open>handleAddImageToItem\<close>: the chosen files are converted by \<^verbatim>\<open>processImageFile\<close>, an
  external collaborator that may reject (\<open>None\<close>); \<^verbatim>\<open>Promise.all\<close> rejects when one of
  them does, and the \<^verbatim>\<open>catch\<close> then leaves the invoice as it is. An absent or empty file
  list is the empty list.
\<close>

definition handleAddImageToItem ::
  "('file \<Rightarrow> string option) \<Rightarrow> string \<Rightarrow> 'file list \<Rightarrow> InvoiceData \<Rightarrow> InvoiceData" where
  "handleAddImageToItem processImageFile itemId files prev =
     (if length files > 0 then
        (case those (map processImageFile files) of
           None \<Rightarrow> prev
         | Some newUrls \<Rightarrow>
             prev\<lparr>items := map (\<lambda>item.
               if item_id item = itemId
               then (let newImages = images item @ newUrls
                     in item\<lparr>images := newImages,
                             quantity := number_of_nat (length newImages)\<rparr>)
               else item) (items prev)\<rparr>)
      else prev)"

text \<open>\<^verbatim>\<open>xs.filter((_, i) => i !== imageIndex)\<close>: the callback sees the element and its index.\<close>

definition filter_index_neq :: "nat \<Rightarrow> 'a list \<Rightarrow> 'a list" where
  "filter_index_neq imageIndex xs =
     map fst (filter (\<lambda>(_, i). i \<noteq> imageIndex) (zip xs [0..<length xs]))"

definition handleRemoveImageFromItem :: "string \<Rightarrow> nat \<Rightarrow> InvoiceData \<Rightarrow> InvoiceData" where
  "handleRemoveImageFromItem itemId imageIndex prev =
     prev\<lparr>items := map (\<lambda>item.
       if item_id item = itemId
       then (let newImages = filter_index_neq imageIndex (images item)
             in item\<lparr>images := newImages,
                     quantity := Math_max (Nonzero 1) (number_of_nat (length newImages))\<rparr>)
       else item) (items prev)\<rparr>"

text \<open>
  Two line items agree on every field other than the images and the quantity:
  identifier, description, unit price and page count.
\<close>

definition same_other_fields :: "InvoiceItem \<Rightarrow> InvoiceItem \<Rightarrow> bool" where
  "same_other_fields old new =
     (new = old\<lparr>images := images new, quantity := quantity new\<rparr>)"

section \<open>Chunked persistence (App: handleSaveInvoice, fetchInvoiceImages)\<close>

text \<open>Decimal rendering of an array index inside a template literal.\<close>

definition digit_char :: "nat \<Rightarrow> char" where
  "digit_char d = ''0123456789'' ! d"

fun string_of_nat :: "nat \<Rightarrow> string" where
  "string_of_nat n =
     (if n < 10 then [digit_char n] else string_of_nat (n div 10) @ [digit_char (n mod 10)])"

declare string_of_nat.simps [simp del]

text \<open>
  Step 1 of \<^verbatim>\<open>handleSaveInvoice\<close>: the lightweight invoice. \<^verbatim>\<open>if (!cleanItem.pages) delete
  cleanItem.pages\<close> removes the field when it is absent or falsy (0 or NaN).
\<close>

definition cleanItem :: "InvoiceItem \<Rightarrow> InvoiceItem" where
  "cleanItem item =
     item\<lparr>pages := (case pages item of None \<Rightarrow> None
                      | Some p \<Rightarrow> if falsy p then None else Some p),
          images := []\<rparr>"

definition lightweightInvoice :: "InvoiceData \<Rightarrow> InvoiceData" where
  "lightweightInvoice activeInv = activeInv\<lparr>items := map cleanItem (items activeInv)\<rparr>"

text \<open>
  Step 2: one write \<open>(id, data)\<close> per image, the id being \<^verbatim>\<open>`${item.id}_${idx}`\<close>, in
  the order of the two nested \<^verbatim>\<open>forEach\<close> loops.
\<close>

definition imageWrites :: "InvoiceData \<Rightarrow> (string \<times> string) list" where
  "imageWrites activeInv =
     concat (map (\<lambda>item.
       map (\<lambda>(imgData, idx). (item_id item @ ''_'' @ string_of_nat idx, imgData))
           (zip (images item) [0..<length (images item)]))
       (items activeInv))"

text \<open>
  Reading back. The snapshot's documents arrive as a list of \<open>(doc.id, doc.data().data)\<close>
  in the order the store delivers them. \<^verbatim>\<open>doc.id.split('_')\<close> destructured to its first
  element is the part of the id before the first underscore. \<open>imageMap\<close> is the
  \<^verbatim>\<open>Record<string, string[]>\<close>; an array is truthy, so \<^verbatim>\<open>imageMap[item.id] || item.images\<close>
  takes the map's entry whenever there is one. The map stands for a plain object whose
  keys are item identifiers; the identifiers the editor generates are at most nine
  lower-case letters and digits, none of which names a member of \<^verbatim>\<open>Object.prototype\<close>,
  and the map does not model a lookup of such a name (\<^verbatim>\<open>constructor\<close>, \<^verbatim>\<open>toString\<close>), which
  an imported invoice could carry.
\<close>

definition itemIdOf :: "string \<Rightarrow> string" where
  "itemIdOf docId = takeWhile (\<lambda>c. c \<noteq> CHR ''_'') docId"

definition addImageDoc ::
  "(string \<rightharpoonup> string list) \<Rightarrow> string \<times> string \<Rightarrow> (string \<rightharpoonup> string list)" where
  "addImageDoc imageMap d =
     (let itemId = itemIdOf (fst d);
          imageMap1 = (case imageMap itemId of None \<Rightarrow> imageMap(itemId \<mapsto> [])
                       | Some _ \<Rightarrow> imageMap)
      in imageMap1(itemId \<mapsto> the (imageMap1 itemId) @ [snd d]))"

definition buildImageMap :: "(string \<times> string) list \<Rightarrow> (string \<rightharpoonup> string list)" where
  "buildImageMap docs = foldl addImageDoc Map.empty docs"

definition spliceImages :: "(string \<rightharpoonup> string list) \<Rightarrow> InvoiceData \<Rightarrow> InvoiceData" where
  "spliceImages imageMap invoice =
     invoice\<lparr>items := map (\<lambda>item.
       item\<lparr>images := (case imageMap (item_id item) of Some imgs \<Rightarrow> imgs
                         | None \<Rightarrow> images item)\<rparr>) (items invoice)\<rparr>"

text \<open>The writes of one line item: the inner loop of step 2.\<close>

definition writesOf :: "InvoiceItem \<Rightarrow> (string \<times> string) list" where
  "writesOf item =
     map (\<lambda>(imgData, idx). (item_id item @ ''_'' @ string_of_nat idx, imgData))
         (zip (images item) [0..<length (images item)])"

section \<open>Dual-backend store (App)\<close>

datatype ViewState =
  DASHBOARD | INVOICES_LIST | CREATE_INVOICE | PREVIEW_INVOICE | PROJECTS | CLIENTS | SETTINGS

text \<open>
  The four keys of the browser's local storage. \<^verbatim>\<open>getItem\<close> returns null for a key never
  written (\<open>None\<close>); \<^verbatim>\<open>JSON.stringify\<close> followed by \<^verbatim>\<open>JSON.parse\<close> is idealised as the
  identity, which it is on strings, lists, records and finite numbers other than -0 (NaN
  and the infinities are written as null, -0 as 0). A call of \<^verbatim>\<open>setItem\<close> may throw (the storage quota is exceeded, the storage is
  disabled); the key then keeps its old value. \<open>local_result\<close> is what the browser does
  with the four calls of one \<^verbatim>\<open>syncToLocalStorage\<close>: all four store their value, or the
  call for one key throws after the calls before it have stored theirs.
\<close>

datatype storage_key = PbInvoices | PbClients | PbProjects | PbSettings

datatype local_result = Stored | Throws storage_key

record LocalStore =
  pb_invoices :: "InvoiceData list option"
  pb_clients :: "Client list option"
  pb_projects :: "Project list option"
  pb_settings :: "AppSettings option"

text \<open>
  Everything the application does to the outside world is appended to a trace: the
  snapshot written by a completed \<^verbatim>\<open>syncToLocalStorage\<close>, the \<^verbatim>\<open>setItem\<close> that threw,
  every call to the remote store, every \<^verbatim>\<open>alert\<close>.
\<close>

datatype remote_op =
    GetDocs_invoices
  | GetDocs_clients
  | GetDocs_projects
  | GetDoc_settings
  | GetDocs_invoiceImages string
  | SetDoc_settings AppSettings
  | SetDoc_client Client
  | SetDoc_project Project
  | DeleteDoc_invoice string
  | BatchCommit InvoiceData "(string \<times> string) list"

datatype event =
    LocalSync "InvoiceData list" "Client list" "Project list" AppSettings
  | SetItemThrew storage_key
  | Remote remote_op
  | Alert string

fun is_remote :: "event \<Rightarrow> bool" where
  "is_remote (Remote _) = True"
| "is_remote _ = False"

text \<open>
  The result of a remote write: it succeeds, or it throws an error whose \<^verbatim>\<open>message\<close> is
  the string (empty when the error has none).
\<close>

datatype outcome = Succeeded | Failed string

text \<open>The component's state (\<^verbatim>\<open>useState\<close>), the local storage and the trace.\<close>

record App =
  invoices :: "InvoiceData list"
  clients :: "Client list"
  projects :: "Project list"
  appSettings :: AppSettings
  activeInvoice :: "InvoiceData option"
  isOffline :: bool
  currentView :: ViewState
  localStorage :: LocalStore
  trace :: "event list"

definition emit :: "event list \<Rightarrow> App \<Rightarrow> App" where
  "emit es a = a\<lparr>trace := trace a @ es\<rparr>"

definition defaultAppSettings :: AppSettings where
  "defaultAppSettings =
     \<lparr>businessName = ''PB Creative'', businessAddress = '''', contactEmail = '''',
      businessLogo = Some '''',
      defaultBank = \<lparr>bankName = ''Sampath Bank'', accountName = '''', accountNumber = '''',
                     branch = ''''\<rparr>,
      defaultImagePrice = Nonzero 1500\<rparr>"

definition initialApp :: "LocalStore \<Rightarrow> App" where
  "initialApp store =
     \<lparr>invoices = [], clients = [], projects = [], appSettings = defaultAppSettings,
      activeInvoice = None, isOffline = False, currentView = DASHBOARD,
      localStorage = store, trace = []\<rparr>"

text \<open>
  \<^verbatim>\<open>syncToLocalStorage\<close>: four calls of \<^verbatim>\<open>setItem\<close> in the order invoices, clients,
  projects, settings. When one of them throws, the exception leaves the function; the
  caller tests \<open>localResult \<noteq> Stored\<close> to see that it did.
\<close>

definition syncToLocalStorage ::
  "local_result \<Rightarrow> InvoiceData list \<Rightarrow> Client list \<Rightarrow> Project list \<Rightarrow> AppSettings
     \<Rightarrow> App \<Rightarrow> App" where
  "syncToLocalStorage localResult newInvoices newClients newProjects newSettings a =
     (let store = localStorage a
      in case localResult of
           Stored \<Rightarrow>
             emit [LocalSync newInvoices newClients newProjects newSettings]
               (a\<lparr>localStorage :=
                    \<lparr>pb_invoices = Some newInvoices, pb_clients = Some newClients,
                     pb_projects = Some newProjects, pb_settings = Some newSettings\<rparr>\<rparr>)
         | Throws PbInvoices \<Rightarrow> emit [SetItemThrew PbInvoices] a
         | Throws PbClients \<Rightarrow>
             emit [SetItemThrew PbClients]
               (a\<lparr>localStorage := store\<lparr>pb_invoices := Some newInvoices\<rparr>\<rparr>)
         | Throws PbProjects \<Rightarrow>
             emit [SetItemThrew PbProjects]
               (a\<lparr>localStorage :=
                    store\<lparr>pb_invoices := Some newInvoices, pb_clients := Some newClients\<rparr>\<rparr>)
         | Throws PbSettings \<Rightarrow>
             emit [SetItemThrew PbSettings]
               (a\<lparr>localStorage :=
                    store\<lparr>pb_invoices := Some newInvoices, pb_clients := Some newClients,
                          pb_projects := Some newProjects\<rparr>\<rparr>))"

definition loadFromLocalStorage :: "App \<Rightarrow> App" where
  "loadFromLocalStorage a =
     (let store = localStorage a;
          a1 = (case pb_invoices store of Some v \<Rightarrow> a\<lparr>invoices := v\<rparr> | None \<Rightarrow> a);
          a2 = (case pb_clients store of Some v \<Rightarrow> a1\<lparr>clients := v\<rparr> | None \<Rightarrow> a1);
          a3 = (case pb_projects store of Some v \<Rightarrow> a2\<lparr>projects := v\<rparr> | None \<Rightarrow> a2)
      in (case pb_settings store of Some v \<Rightarrow> a3\<lparr>appSettings := v\<rparr> | None \<Rightarrow> a3))"

text \<open>
  \<^verbatim>\<open>fetchData\<close>, run once when the component mounts. \<open>isConfigured\<close> is the constant of
  \<^verbatim>\<open>firebaseConfig.ts\<close>, taken as a parameter. The remote store's answers to the four
  reads and to the seeding write are the fields of \<open>BootEnv\<close> (\<open>Inl\<close> is a thrown
  error), with the result of the local write; the reads happen in the order of the
  source, inside one \<^verbatim>\<open>try\<close>, and the seeding write has a \<^verbatim>\<open>try\<close> of its own with an
  empty \<^verbatim>\<open>catch\<close>. The local write is inside the outer \<^verbatim>\<open>try\<close>: when it throws, the
  \<^verbatim>\<open>catch\<close> treats it like a failed connection.
\<close>

record BootEnv =
  r_invoices :: "string + InvoiceData list"
  r_clients :: "string + Client list"
  r_projects :: "string + Project list"
  r_settings :: "string + AppSettings option"
  r_seed :: outcome
  r_local :: local_result

definition connectionFailed :: "App \<Rightarrow> App" where
  "connectionFailed a = loadFromLocalStorage (a\<lparr>isOffline := True\<rparr>)"

definition fetchData :: "bool \<Rightarrow> BootEnv \<Rightarrow> App \<Rightarrow> App" where
  "fetchData isConfigured env a =
     (if \<not> isConfigured then loadFromLocalStorage (a\<lparr>isOffline := True\<rparr>)
      else
        (case r_invoices env of
           Inl _ \<Rightarrow> connectionFailed (emit [Remote GetDocs_invoices] a)
         | Inr fetchedInvoices \<Rightarrow>
        (case r_clients env of
           Inl _ \<Rightarrow> connectionFailed (emit [Remote GetDocs_invoices, Remote GetDocs_clients] a)
         | Inr fetchedClients \<Rightarrow>
        (case r_projects env of
           Inl _ \<Rightarrow> connectionFailed
                      (emit [Remote GetDocs_invoices, Remote GetDocs_clients,
                             Remote GetDocs_projects] a)
         | Inr fetchedProjects \<Rightarrow>
        (case r_settings env of
           Inl _ \<Rightarrow> connectionFailed
                      (emit [Remote GetDocs_invoices, Remote GetDocs_clients,
                             Remote GetDocs_projects, Remote GetDoc_settings] a)
         | Inr settingsDoc \<Rightarrow>
             (let reads = [Remote GetDocs_invoices, Remote GetDocs_clients,
                           Remote GetDocs_projects, Remote GetDoc_settings];
                  fetchedSettings = (case settingsDoc of Some s \<Rightarrow> s
                                     | None \<Rightarrow> defaultAppSettings);
                  seed = (case settingsDoc of Some _ \<Rightarrow> []
                          | None \<Rightarrow> [Remote (SetDoc_settings defaultAppSettings)]);
                  a1 = (emit (reads @ seed) a)
                         \<lparr>invoices := fetchedInvoices, clients := fetchedClients,
                          projects := fetchedProjects, appSettings := fetchedSettings\<rparr>;
                  a2 = syncToLocalStorage (r_local env) fetchedInvoices fetchedClients
                         fetchedProjects fetchedSettings a1
              in if r_local env \<noteq> Stored then connectionFailed a2
                 else a2\<lparr>isOffline := False\<rparr>))))))"

text \<open>
  \<^verbatim>\<open>handleCreateNewInvoice\<close>. The current year, the random id and the two dates come from
  the environment and are arguments.
\<close>

definition padStart :: "nat \<Rightarrow> char \<Rightarrow> string \<Rightarrow> string" where
  "padStart n c s = replicate (n - length s) c @ s"

definition createEmptyInvoice ::
  "string \<Rightarrow> BankDetails \<Rightarrow> string \<Rightarrow> string \<Rightarrow> string \<Rightarrow> InvoiceData" where
  "createEmptyInvoice invNumber defaultBnk randomId today inTwoWeeks =
     \<lparr>inv_id = randomId, invoiceNumber = invNumber, date = today, dueDate = inTwoWeeks,
      projectId = Some '''',
      client = \<lparr>client_id = '''', name = '''', company = '''', address = '''', email = '''',
                phone = ''''\<rparr>,
      items = [], taxRate = Zero False, discount = Zero False, status = DRAFT,
      bankDetails = defaultBnk\<rparr>"

definition handleCreateNewInvoice :: "string \<Rightarrow> string \<Rightarrow> string \<Rightarrow> string \<Rightarrow> App \<Rightarrow> App" where
  "handleCreateNewInvoice year randomId today inTwoWeeks a =
     (let nextNumber = ''INV-'' @ year @ ''-'' @
            padStart 3 CHR ''0'' (string_of_nat (length (invoices a) + 1));
          newInvoice = createEmptyInvoice nextNumber (defaultBank (appSettings a))
                         randomId today inTwoWeeks
      in a\<lparr>activeInvoice := Some newInvoice, currentView := CREATE_INVOICE\<rparr>)"

text \<open>
  \<^verbatim>\<open>fetchInvoiceImages\<close> returns the invoice to edit and the remote calls it made. The
  answer of the remote store is \<open>Inl\<close> for a thrown error and \<open>Inr\<close> for the snapshot's
  documents in the order delivered.
\<close>

definition fetchInvoiceImages ::
  "bool \<Rightarrow> bool \<Rightarrow> (string + (string \<times> string) list) \<Rightarrow> InvoiceData
     \<Rightarrow> InvoiceData \<times> event list" where
  "fetchInvoiceImages isConfigured offline answer invoice =
     (if offline \<or> \<not> isConfigured then (invoice, [])
      else
        (let hasImages = list_ex (\<lambda>item. length (images item) > 0) (items invoice)
         in if hasImages then (invoice, [])
            else
              (case answer of
                 Inr docs \<Rightarrow>
                   (spliceImages (buildImageMap docs) invoice,
                    [Remote (GetDocs_invoiceImages (inv_id invoice))])
               | Inl _ \<Rightarrow> (invoice, [Remote (GetDocs_invoiceImages (inv_id invoice))]))))"

definition handleEditInvoice ::
  "bool \<Rightarrow> (string + (string \<times> string) list) \<Rightarrow> InvoiceData \<Rightarrow> App \<Rightarrow> App" where
  "handleEditInvoice isConfigured answer invoice a =
     (case fetchInvoiceImages isConfigured (isOffline a) answer invoice of
        (fullInvoice, calls) \<Rightarrow>
          (emit calls a)\<lparr>activeInvoice := Some fullInvoice, currentView := CREATE_INVOICE\<rparr>)"

text \<open>
  The five mutating handlers call the state setter, then \<^verbatim>\<open>syncToLocalStorage\<close>, outside
  any \<^verbatim>\<open>try\<close>, then, inside a \<^verbatim>\<open>try\<close>, the remote store. An exception thrown by the
  local write therefore ends the handler: the state setter has run, nothing after the
  local write does.

  \<^verbatim>\<open>handleDeleteInvoice\<close>; \<open>confirmed\<close> is the user's answer to \<^verbatim>\<open>confirm\<close>.
\<close>

definition handleDeleteInvoice ::
  "bool \<Rightarrow> bool \<Rightarrow> local_result \<Rightarrow> outcome \<Rightarrow> string \<Rightarrow> App \<Rightarrow> App" where
  "handleDeleteInvoice isConfigured confirmed localResult result ident a =
     (if confirmed then
        (let updatedInvoices = filter (\<lambda>invoice. inv_id invoice \<noteq> ident) (invoices a);
             a1 = syncToLocalStorage localResult updatedInvoices (clients a) (projects a)
                    (appSettings a) (a\<lparr>invoices := updatedInvoices\<rparr>)
         in if localResult \<noteq> Stored then a1
            else if \<not> isOffline a \<and> isConfigured then
              (case result of
                 Succeeded \<Rightarrow> emit [Remote (DeleteDoc_invoice ident)] a1
               | Failed _ \<Rightarrow> (emit [Remote (DeleteDoc_invoice ident)] a1)\<lparr>isOffline := True\<rparr>)
            else a1)
      else a)"

text \<open>\<^verbatim>\<open>String.prototype.includes\<close>.\<close>

primrec includes_str :: "string \<Rightarrow> string \<Rightarrow> bool" where
  "includes_str [] t = (t = [])"
| "includes_str (c # cs) t = (take (length t) (c # cs) = t \<or> includes_str cs t)"

definition handleSaveInvoice :: "bool \<Rightarrow> local_result \<Rightarrow> outcome \<Rightarrow> App \<Rightarrow> App" where
  "handleSaveInvoice isConfigured localResult result a =
     (case activeInvoice a of
        None \<Rightarrow> a
      | Some activeInv \<Rightarrow>
          (let updatedInvoices =
                 (if list_ex (\<lambda>invoice. inv_id invoice = inv_id activeInv) (invoices a)
                  then map (\<lambda>invoice. if inv_id invoice = inv_id activeInv then activeInv
                                       else invoice) (invoices a)
                  else invoices a @ [activeInv]);
               a1 = syncToLocalStorage localResult updatedInvoices (clients a) (projects a)
                      (appSettings a) (a\<lparr>invoices := updatedInvoices\<rparr>);
               commit = Remote (BatchCommit (lightweightInvoice activeInv)
                                  (imageWrites activeInv))
           in if localResult \<noteq> Stored then a1
              else if \<not> isOffline a \<and> isConfigured then
                (case result of
                   Succeeded \<Rightarrow> emit [commit, Alert ''Invoice saved to cloud!''] a1
                 | Failed message \<Rightarrow>
                     if message \<noteq> [] \<and> includes_str message ''exceeds the maximum allowed size''
                     then emit [commit,
                            Alert ''One of the images is too large. Please try a smaller image.'']
                            a1
                     else (emit [commit, Alert ''Connection lost. Invoice saved locally.''] a1)
                            \<lparr>isOffline := True\<rparr>)
              else emit [Alert ''Invoice saved locally (Offline Mode).''] a1))"

definition handleSaveSettings ::
  "bool \<Rightarrow> local_result \<Rightarrow> outcome \<Rightarrow> AppSettings \<Rightarrow> App \<Rightarrow> App" where
  "handleSaveSettings isConfigured localResult result newSettings a =
     (let a1 = syncToLocalStorage localResult (invoices a) (clients a) (projects a) newSettings
                 (a\<lparr>appSettings := newSettings\<rparr>)
      in if localResult \<noteq> Stored then a1
         else if \<not> isOffline a \<and> isConfigured then
           (case result of
              Succeeded \<Rightarrow>
                emit [Remote (SetDoc_settings newSettings), Alert ''Settings updated in cloud!'']
                  a1
            | Failed _ \<Rightarrow>
                (emit [Remote (SetDoc_settings newSettings),
                       Alert ''Connection lost. Settings saved locally.''] a1)
                  \<lparr>isOffline := True\<rparr>)
         else emit [Alert ''Settings saved locally.''] a1)"

definition handleSaveClient ::
  "bool \<Rightarrow> local_result \<Rightarrow> outcome \<Rightarrow> Client \<Rightarrow> App \<Rightarrow> App" where
  "handleSaveClient isConfigured localResult result newClient a =
     (let updatedClients = clients a @ [newClient];
          a1 = syncToLocalStorage localResult (invoices a) updatedClients (projects a)
                 (appSettings a) (a\<lparr>clients := updatedClients\<rparr>)
      in if localResult \<noteq> Stored then a1
         else if \<not> isOffline a \<and> isConfigured then
           (case result of
              Succeeded \<Rightarrow> emit [Remote (SetDoc_client newClient)] a1
            | Failed _ \<Rightarrow> (emit [Remote (SetDoc_client newClient)] a1)\<lparr>isOffline := True\<rparr>)
         else a1)"

definition handleSaveProject ::
  "bool \<Rightarrow> local_result \<Rightarrow> outcome \<Rightarrow> Project \<Rightarrow> App \<Rightarrow> App" where
  "handleSaveProject isConfigured localResult result newProject a =
     (let updatedProjects = projects a @ [newProject];
          a1 = syncToLocalStorage localResult (invoices a) (clients a) updatedProjects
                 (appSettings a) (a\<lparr>projects := updatedProjects\<rparr>)
      in if localResult \<noteq> Stored then a1
         else if \<not> isOffline a \<and> isConfigured then
           (case result of
              Succeeded \<Rightarrow> emit [Remote (SetDoc_project newProject)] a1
            | Failed _ \<Rightarrow> (emit [Remote (SetDoc_project newProject)] a1)\<lparr>isOffline := True\<rparr>)
         else a1)"

text \<open>
  \<^verbatim>\<open>handleImportData\<close>: \<open>None\<close> for a file that \<^verbatim>\<open>JSON.parse\<close> rejects; otherwise the
  four top-level keys of the document, each present or not. The local write is inside
  the \<^verbatim>\<open>try\<close> that guards the parsing, so an exception it throws is reported by the same
  alert.
\<close>

record ImportDoc =
  j_invoices :: "InvoiceData list option"
  j_clients :: "Client list option"
  j_projects :: "Project list option"
  j_settings :: "AppSettings option"

definition handleImportData :: "ImportDoc option \<Rightarrow> bool \<Rightarrow> local_result \<Rightarrow> App \<Rightarrow> App" where
  "handleImportData parsed confirmed localResult a =
     (case parsed of
        None \<Rightarrow> emit [Alert ''Error parsing backup file.''] a
      | Some json \<Rightarrow>
          if confirmed then
            (let a1 = (case j_invoices json of Some v \<Rightarrow> a\<lparr>invoices := v\<rparr> | None \<Rightarrow> a);
                 a2 = (case j_clients json of Some v \<Rightarrow> a1\<lparr>clients := v\<rparr> | None \<Rightarrow> a1);
                 a3 = (case j_projects json of Some v \<Rightarrow> a2\<lparr>projects := v\<rparr> | None \<Rightarrow> a2);
                 a4 = (case j_settings json of Some v \<Rightarrow> a3\<lparr>appSettings := v\<rparr>
                       | None \<Rightarrow> a3);
                 a5 = syncToLocalStorage localResult
                        (case j_invoices json of Some v \<Rightarrow> v | None \<Rightarrow> invoices a)
                        (case j_clients json of Some v \<Rightarrow> v | None \<Rightarrow> clients a)
                        (case j_projects json of Some v \<Rightarrow> v | None \<Rightarrow> projects a)
                        (case j_settings json of Some v \<Rightarrow> v | None \<Rightarrow> appSettings a)
                        a4
             in if localResult \<noteq> Stored then emit [Alert ''Error parsing backup file.''] a5
                else a5)
          else a)"

text \<open>
  One input of the session: a user action together with the result of the local write
  and the remote store's answer to the call the action may make. \<open>EditorSetData\<close> is the editor's \<^verbatim>\<open>setData\<close> (it replaces
  the active invoice; the editor is rendered only while there is one), \<open>SetView\<close> is
  navigation.
\<close>

datatype input =
    CreateNewInvoice string string string string
  | EditInvoice InvoiceData "string + (string \<times> string) list"
  | DeleteInvoice string bool local_result outcome
  | SaveInvoice local_result outcome
  | SaveSettings AppSettings local_result outcome
  | SaveClient Client local_result outcome
  | SaveProject Project local_result outcome
  | ImportData "ImportDoc option" bool local_result
  | EditorSetData InvoiceData
  | SetView ViewState

fun step :: "bool \<Rightarrow> App \<Rightarrow> input \<Rightarrow> App" where
  "step cfg a (CreateNewInvoice year randomId today inTwoWeeks) =
     handleCreateNewInvoice year randomId today inTwoWeeks a"
| "step cfg a (EditInvoice invoice answer) = handleEditInvoice cfg answer invoice a"
| "step cfg a (DeleteInvoice ident confirmed localResult result) =
     handleDeleteInvoice cfg confirmed localResult result ident a"
| "step cfg a (SaveInvoice localResult result) = handleSaveInvoice cfg localResult result a"
| "step cfg a (SaveSettings newSettings localResult result) =
     handleSaveSettings cfg localResult result newSettings a"
| "step cfg a (SaveClient newClient localResult result) =
     handleSaveClient cfg localResult result newClient a"
| "step cfg a (SaveProject newProject localResult result) =
     handleSaveProject cfg localResult result newProject a"
| "step cfg a (ImportData parsed confirmed localResult) =
     handleImportData parsed confirmed localResult a"
| "step cfg a (EditorSetData d) =
     (case activeInvoice a of None \<Rightarrow> a | Some _ \<Rightarrow> a\<lparr>activeInvoice := Some d\<rparr>)"
| "step cfg a (SetView v) = a\<lparr>currentView := v\<rparr>"

definition run :: "bool \<Rightarrow> App \<Rightarrow> input list \<Rightarrow> App" where
  "run cfg a ins = foldl (step cfg) a ins"

definition session :: "bool \<Rightarrow> BootEnv \<Rightarrow> LocalStore \<Rightarrow> input list \<Rightarrow> App" where
  "session cfg env store ins = run cfg (fetchData cfg env (initialApp store)) ins"

section \<open>Vocabulary for the properties of the store\<close>

text \<open>
  The four in-memory collections of a state, the local store that holds exactly a given
  snapshot, and the test the invoice handler applies to an error message.
\<close>

type_synonym collections = "InvoiceData list \<times> Client list \<times> Project list \<times> AppSettings"

definition collections :: "App \<Rightarrow> collections" where
  "collections a = (invoices a, clients a, projects a, appSettings a)"

fun snapshot :: "collections \<Rightarrow> LocalStore" where
  "snapshot (invs, cls, prs, sets) =
     \<lparr>pb_invoices = Some invs, pb_clients = Some cls, pb_projects = Some prs,
      pb_settings = Some sets\<rparr>"

fun syncOf :: "collections \<Rightarrow> event" where
  "syncOf (invs, cls, prs, sets) = LocalSync invs cls prs sets"

fun is_local :: "event \<Rightarrow> bool" where
  "is_local (LocalSync _ _ _ _) = True"
| "is_local (SetItemThrew _) = True"
| "is_local _ = False"

definition mirrored :: "App \<Rightarrow> bool" where
  "mirrored a = (localStorage a = snapshot (collections a))"

definition sizeLimitError :: "string \<Rightarrow> bool" where
  "sizeLimitError message =
     (message \<noteq> [] \<and> includes_str message ''exceeds the maximum allowed size'')"

text \<open>
  The five mutating operations. Deleting mutates once the user has confirmed; saving an
  invoice mutates when there is an active invoice (the argument). \<open>locallyStored\<close> says
  that the local write of an input, if it makes one, does not throw; \<open>importing\<close> is
  the import of a document that parses, once confirmed.
\<close>

fun mutating :: "InvoiceData option \<Rightarrow> input \<Rightarrow> bool" where
  "mutating act (DeleteInvoice ident confirmed localResult result) = confirmed"
| "mutating act (SaveInvoice localResult result) = (act \<noteq> None)"
| "mutating act (SaveSettings newSettings localResult result) = True"
| "mutating act (SaveClient newClient localResult result) = True"
| "mutating act (SaveProject newProject localResult result) = True"
| "mutating act _ = False"

fun locallyStored :: "input \<Rightarrow> bool" where
  "locallyStored (DeleteInvoice ident confirmed localResult result) = (localResult = Stored)"
| "locallyStored (SaveInvoice localResult result) = (localResult = Stored)"
| "locallyStored (SaveSettings newSettings localResult result) = (localResult = Stored)"
| "locallyStored (SaveClient newClient localResult result) = (localResult = Stored)"
| "locallyStored (SaveProject newProject localResult result) = (localResult = Stored)"
| "locallyStored (ImportData parsed confirmed localResult) = (localResult = Stored)"
| "locallyStored _ = True"

fun importing :: "input \<Rightarrow> bool" where
  "importing (ImportData (Some json) True localResult) = True"
| "importing _ = False"

text \<open>
  The change each mutating operation stands for, written from the specification's
  description of the operations as a function on the four collections alone: it sees
  neither the connectivity state nor the outcome of the local or of the remote write.
  Saving an invoice replaces the invoices with the same identifier, or appends the
  invoice when there is none. An import replaces the collections the document holds.
\<close>

fun spec_change :: "InvoiceData option \<Rightarrow> input \<Rightarrow> collections \<Rightarrow> collections" where
  "spec_change act (DeleteInvoice ident confirmed localResult result) (invs, cls, prs, sets) =
     ([v \<leftarrow> invs. inv_id v \<noteq> ident], cls, prs, sets)"
| "spec_change (Some v) (SaveInvoice localResult result) (invs, cls, prs, sets) =
     ((if inv_id v \<in> inv_id ` set invs
       then map (\<lambda>w. if inv_id w = inv_id v then v else w) invs
       else invs @ [v]), cls, prs, sets)"
| "spec_change act (SaveSettings newSettings localResult result) (invs, cls, prs, sets) =
     (invs, cls, prs, newSettings)"
| "spec_change act (SaveClient newClient localResult result) (invs, cls, prs, sets) =
     (invs, cls @ [newClient], prs, sets)"
| "spec_change act (SaveProject newProject localResult result) (invs, cls, prs, sets) =
     (invs, cls, prs @ [newProject], sets)"
| "spec_change act _ c = c"

fun spec_import :: "ImportDoc \<Rightarrow> collections \<Rightarrow> collections" where
  "spec_import json (invs, cls, prs, sets) =
     ((case j_invoices json of Some v \<Rightarrow> v | None \<Rightarrow> invs),
      (case j_clients json of Some v \<Rightarrow> v | None \<Rightarrow> cls),
      (case j_projects json of Some v \<Rightarrow> v | None \<Rightarrow> prs),
      (case j_settings json of Some v \<Rightarrow> v | None \<Rightarrow> sets))"

text \<open>
  The change of any input, given the invoice that is active when it arrives, and the
  changes of a whole sequence of inputs, each with the invoice active at its turn.
\<close>

fun change_of :: "InvoiceData option \<Rightarrow> input \<Rightarrow> collections \<Rightarrow> collections" where
  "change_of act (ImportData (Some json) True localResult) c = spec_import json c"
| "change_of act m c = (if mutating act m then spec_change act m c else c)"

fun changes :: "bool \<Rightarrow> App \<Rightarrow> input list \<Rightarrow> (collections \<Rightarrow> collections) list" where
  "changes cfg a [] = []"
| "changes cfg a (m # ms) = change_of (activeInvoice a) m # changes cfg (step cfg a m) ms"

text \<open>
  A remote write that fails for a reason other than the size limit, in an operation that
  reaches its remote write (its local write has not thrown).
\<close>

fun connectionFailure :: "InvoiceData option \<Rightarrow> input \<Rightarrow> bool" where
  "connectionFailure act (DeleteInvoice ident confirmed Stored (Failed message)) =
     (confirmed \<and> \<not> sizeLimitError message)"
| "connectionFailure act (SaveInvoice Stored (Failed message)) =
     (act \<noteq> None \<and> \<not> sizeLimitError message)"
| "connectionFailure act (SaveSettings newSettings Stored (Failed message)) =
     (\<not> sizeLimitError message)"
| "connectionFailure act (SaveClient newClient Stored (Failed message)) =
     (\<not> sizeLimitError message)"
| "connectionFailure act (SaveProject newProject Stored (Failed message)) =
     (\<not> sizeLimitError message)"
| "connectionFailure act _ = False"

definition bootReadsOk :: "BootEnv \<Rightarrow> bool" where
  "bootReadsOk env =
     (\<not> isl (r_invoices env) \<and> \<not> isl (r_clients env) \<and> \<not> isl (r_projects env)
      \<and> \<not> isl (r_settings env))"

section \<open>Sample data\<close>

text \<open>
  Concrete values at which the theorems below are instantiated. \<open>lit\<close> is a numeric
  literal; it is used on integers only, which are doubles.
\<close>

definition lit :: "rat \<Rightarrow> number" where
  "lit r = (if r = 0 then Zero False else Nonzero r)"

definition exItem :: "string \<Rightarrow> rat \<Rightarrow> rat \<Rightarrow> string list \<Rightarrow> InvoiceItem" where
  "exItem i p q imgs =
     \<lparr>item_id = i, description = ''Retouching'', quantity = lit q, price = lit p,
      images = imgs, pages = None\<rparr>"

definition exClient :: Client where
  "exClient =
     \<lparr>client_id = ''c1'', name = ''N. Perera'', company = ''Acme'', address = ''Colombo'',
      email = ''n@acme.lk'', phone = ''011''\<rparr>"

definition exBank :: BankDetails where
  "exBank =
     \<lparr>bankName = ''Sampath Bank'', accountName = ''PB'', accountNumber = ''1'',
      branch = ''Kandy''\<rparr>"

definition exInvoice :: "InvoiceItem list \<Rightarrow> rat \<Rightarrow> rat \<Rightarrow> InvoiceData" where
  "exInvoice its rate disc =
     \<lparr>inv_id = ''inv1'', invoiceNumber = ''INV-2025-001'', date = ''2025-01-01'',
      dueDate = ''2025-01-15'', projectId = None, client = exClient, items = its,
      taxRate = lit rate, discount = lit disc, status = PENDING, bankDetails = exBank\<rparr>"



definition exBigItem :: InvoiceItem where
  "exBigItem = exItem ''big'' 1500 26 (replicate 26 ''data:image/jpeg;base64,AAAA'')"

definition exDraft :: InvoiceData where
  "exDraft = exInvoice [exItem ''a'' 100 1 [''x''], exItem ''b'' 50 1 []] 0 0"

definition exTwo :: InvoiceData where
  "exTwo = exInvoice [exItem ''a'' 100 2 [''x'', ''y'']] 0 0"

definition exStore :: LocalStore where
  "exStore = \<lparr>pb_invoices = None, pb_clients = None, pb_projects = None, pb_settings = None\<rparr>"

definition exBoot :: BootEnv where
  "exBoot = \<lparr>r_invoices = Inr [], r_clients = Inr [], r_projects = Inr [],
             r_settings = Inr None, r_seed = Failed ''permission-denied'',
             r_local = Stored\<rparr>"

text \<open>A session that started with the remote store reachable and opened a draft.\<close>

definition exOnline :: App where
  "exOnline = session True exBoot exStore
                [CreateNewInvoice ''2025'' ''k3j9x0q1z'' ''2025-01-01'' ''2025-01-15'',
                 EditorSetData exTwo]"

definition exEleven :: InvoiceData where
  "exEleven =
     exInvoice [exItem ''a'' 1500 11
                  [''i0'', ''i1'', ''i2'', ''i3'', ''i4'', ''i5'', ''i6'', ''i7'', ''i8'', ''i9'',
                   ''i10'']] 0 0"

text \<open>
  The child records of \<open>exEleven\<close> in ascending order of their document ids, as strings:
  \<open>a_10\<close> comes between \<open>a_1\<close> and \<open>a_2\<close>.
\<close>

definition exElevenById :: "(string \<times> string) list" where
  "exElevenById = map (\<lambda>i. imageWrites exEleven ! i) [0, 1, 10, 2, 3, 4, 5, 6, 7, 8, 9]"

definition exTooLarge :: string where
  "exTooLarge = ''Document size exceeds the maximum allowed size of 1,048,576 bytes''"

definition exSettings :: AppSettings where
  "exSettings = defaultAppSettings\<lparr>businessLogo := Some ''data:image/png;base64,AAAA''\<rparr>"

text \<open>The same session after an invoice save that failed for lack of a connection.\<close>

definition exOffline :: App where
  "exOffline = step True exOnline (SaveInvoice Stored (Failed ''unavailable''))"

section \<open>Properties of the calculator\<close>













lemma spec_example_total:
  "calculateInvoiceTotal (exInvoice [exItem ''a'' 100 2 [], exItem ''b'' 50 1 []] 10 20)
     = Nonzero 255"
  by code_simp

section \<open>Properties of the paginator\<close>

lemma imageRows_div: "imageRows item = (length (images item) + 4) div 5"
  unfolding imageRows_def by linarith

lemma placeAll_concat:
  "foldl placeItem (cp, cur, h) its = (cp', cur', h')
   \<Longrightarrow> concat cp' @ cur' = concat cp @ cur @ its"
proof (induction its arbitrary: cp cur h)
  case Nil
  then show ?case by simp
next
  case (Cons x xs)
  then show ?case by (simp split: if_splits)
qed

text \<open>
  Claim C6. For every sequence of line items, the concatenation of the pages produced by
  the paginator, in page order, is the input sequence itself: nothing is reordered,
  duplicated or dropped. The paginator is a function of the invoice, hence deterministic.
\<close>

theorem pages_concat: "concat (InvoicePreview_pages data) = items data"
proof -
  obtain cp cur h where p: "placeAll (items data) = (cp, cur, h)"
    by (cases "placeAll (items data)") auto
  then have "concat cp @ cur = items data"
    using placeAll_concat[of "[]" "[]" HEADER_HEIGHT "items data" cp cur h]
    by (simp add: placeAll_def)
  then show ?thesis
    by (auto simp: InvoicePreview_pages_def p Let_def)
qed

lemma placed_step: "placed s \<Longrightarrow> placed (placeItem s item)"
proof (cases s)
  case (fields cp cur h)
  assume inv: "placed s"
  show ?thesis
  proof (cases "h + itemHeight item > PAGE_HEIGHT_ESTIMATE")
    case True
    have "page_ok (Suc (length cp)) [item]"
      by (auto simp: page_ok_def pageHeight_def pageStart_def)
    moreover have "\<forall>i < Suc (length cp). page_ok i ((cp @ [cur]) ! i)"
      using inv fields by (auto simp: nth_append less_Suc_eq)
    ultimately show ?thesis using True fields
      by (simp add: pageHeight_def pageStart_def)
  next
    case False
    then have "page_ok (length cp) (cur @ [item])"
      using inv fields by (simp add: page_ok_def pageHeight_def)
    then show ?thesis using False inv fields
      by (simp add: pageHeight_def)
  qed
qed

lemma placed_foldl: "placed s \<Longrightarrow> placed (foldl placeItem s its)"
  by (induction its arbitrary: s) (simp_all add: placed_step)

lemma placed_placeAll: "placed (placeAll its)"
  unfolding placeAll_def
  by (rule placed_foldl)
     (simp add: pageHeight_def pageStart_def page_ok_def HEADER_HEIGHT_def
        PAGE_HEIGHT_ESTIMATE_def)

lemma page_ok_Nil: "page_ok i []"
  by (simp add: page_ok_def pageHeight_def pageStart_def HEADER_HEIGHT_def
      PAGE_HEIGHT_ESTIMATE_def)

lemma pages_all_ok:
  assumes i: "i < length (InvoicePreview_pages data)"
  shows "page_ok i (InvoicePreview_pages data ! i)"
proof -
  obtain cp cur h where p: "placeAll (items data) = (cp, cur, h)"
    by (cases "placeAll (items data)") auto
  have inv: "placed (cp, cur, h)"
    using placed_placeAll[of "items data"] p by simp
  have a: "\<And>j. j < length (cp @ [cur]) \<Longrightarrow> page_ok j ((cp @ [cur]) ! j)"
    using inv by (auto simp: nth_append less_Suc_eq)
  have b: "\<And>j. j < length cp \<Longrightarrow> page_ok j (cp ! j)"
    using inv by simp
  show ?thesis
    using i a b page_ok_Nil
    by (auto simp: InvoicePreview_pages_def p Let_def nth_append less_Suc_eq
        split: if_splits)
qed

lemma placeItem_current_nonempty:
  "its \<noteq> [] \<Longrightarrow> fst (snd (foldl placeItem s its)) \<noteq> []"
proof (induction its rule: rev_induct)
  case Nil
  then show ?case by simp
next
  case (snoc x xs)
  show ?case by (cases "foldl placeItem s xs") simp
qed

lemmas paginator_constants =
  HEADER_HEIGHT_def PAGE_HEIGHT_ESTIMATE_def FOOTER_HEIGHT_def ITEM_BASE_HEIGHT_def
  ITEM_IMAGE_ROW_HEIGHT_def

lemma pages_exBig:
  "InvoicePreview_pages (exInvoice [exBigItem] 0 0) = [[], [exBigItem], []]"
  by (simp add: InvoicePreview_pages_def placeAll_def exInvoice_def exItem_def exBigItem_def
      itemHeight_def imageRows_div paginator_constants)

lemma itemHeight_exBig: "itemHeight exBigItem = 1005"
  by (simp add: exItem_def exBigItem_def itemHeight_def imageRows_div paginator_constants)

text \<open>
  Claim C7 as stated fails. An item with 26 images has the estimated height
  \<open>45 + 6 * 160 = 1005\<close>, which does not exceed the budget 1050; it does not fit on the
  first page (\<open>200 + 1005\<close>), so an empty first page is closed and the item opens the
  second page, whose estimated height is \<open>80 + 1005 = 1085\<close>, over the budget.
\<close>

theorem page_height_counterexample:
  "InvoicePreview_pages (exInvoice [exBigItem] 0 0) ! 1 = [exBigItem]
   \<and> 1 < length (InvoicePreview_pages (exInvoice [exBigItem] 0 0))
   \<and> PAGE_HEIGHT_ESTIMATE < pageHeight 1 (InvoicePreview_pages (exInvoice [exBigItem] 0 0) ! 1)
   \<and> itemHeight exBigItem \<le> PAGE_HEIGHT_ESTIMATE"
  by (simp add: pages_exBig itemHeight_exBig pageHeight_def pageStart_def
      PAGE_HEIGHT_ESTIMATE_def)

text \<open>
  Claim C7, amended. For every sequence of line items, every page produced by the
  paginator has an estimated height (header height 200 on the first page, top margin 80
  on later pages, plus the estimated heights of its items) within the page-height
  budget, except when a single item's estimated height plus the top margin 80 already
  exceeds the budget; that item is then the only item on its page, a page after the
  first.
\<close>

theorem page_height_bound:
  "\<forall>i < length (InvoicePreview_pages data).
     pageHeight i (InvoicePreview_pages data ! i) \<le> PAGE_HEIGHT_ESTIMATE
     \<or> (0 < i \<and> (\<exists>item. InvoicePreview_pages data ! i = [item]
                        \<and> PAGE_HEIGHT_ESTIMATE < 80 + itemHeight item))"
proof (intro allI impI)
  fix i
  assume "i < length (InvoicePreview_pages data)"
  then have "page_ok i (InvoicePreview_pages data ! i)"
    by (rule pages_all_ok)
  then show "pageHeight i (InvoicePreview_pages data ! i) \<le> PAGE_HEIGHT_ESTIMATE
     \<or> (0 < i \<and> (\<exists>item. InvoicePreview_pages data ! i = [item]
                        \<and> PAGE_HEIGHT_ESTIMATE < 80 + itemHeight item))"
    unfolding page_ok_def
    by (cases "InvoicePreview_pages data ! i") (auto simp: length_Suc_conv)
qed

theorem page_height_bound_witness:
  "0 < length (InvoicePreview_pages
                 (exInvoice [exItem ''a'' 100 2 [''x'', ''y''], exItem ''b'' 50 1 []] 10 20))
   \<and> pageHeight 0 (InvoicePreview_pages
                 (exInvoice [exItem ''a'' 100 2 [''x'', ''y''], exItem ''b'' 50 1 []] 10 20) ! 0)
       \<le> PAGE_HEIGHT_ESTIMATE"
proof -
  have "0 < length (InvoicePreview_pages
                 (exInvoice [exItem ''a'' 100 2 [''x'', ''y''], exItem ''b'' 50 1 []] 10 20))"
    by (simp add: InvoicePreview_pages_def placeAll_def exInvoice_def exItem_def
        itemHeight_def imageRows_div paginator_constants)
  with page_height_bound
         [of "exInvoice [exItem ''a'' 100 2 [''x'', ''y''], exItem ''b'' 50 1 []] 10 20"]
  show ?thesis by auto
qed

text \<open>
  Claim C8. The paginator's result is the pages that hold the items followed by exactly
  one empty page if the accumulated height after the last item plus the footer height
  140 exceeds the budget, and by nothing otherwise. When there are items, the last of
  the pages holding them is not empty (so the trailing page is the only empty page at
  the end) and the accumulated height is the estimated height of that last page. For
  the empty item sequence the paginator produces zero pages.
\<close>

theorem footer_page:
  "InvoicePreview_pages data =
     itemPages data
       @ (if PAGE_HEIGHT_ESTIMATE < finalHeight data + FOOTER_HEIGHT then [[]] else [])
   \<and> (items data \<noteq> [] \<longrightarrow>
        itemPages data \<noteq> [] \<and> last (itemPages data) \<noteq> []
        \<and> finalHeight data
            = pageHeight (length (itemPages data) - 1) (last (itemPages data)))
   \<and> (items data = [] \<longrightarrow> InvoicePreview_pages data = [])"
proof -
  obtain cp cur h where p: "placeAll (items data) = (cp, cur, h)"
    by (cases "placeAll (items data)") auto
  have inv: "placed (cp, cur, h)"
    using placed_placeAll[of "items data"] p by simp
  have ne: "items data \<noteq> [] \<Longrightarrow> cur \<noteq> []"
    using placeItem_current_nonempty[of "items data" "([], [], HEADER_HEIGHT)"] p
    by (simp add: placeAll_def)
  have 1: "InvoicePreview_pages data =
     itemPages data
       @ (if PAGE_HEIGHT_ESTIMATE < finalHeight data + FOOTER_HEIGHT then [[]] else [])"
    by (simp add: InvoicePreview_pages_def itemPages_def finalHeight_def p Let_def)
  have 2: "items data \<noteq> [] \<longrightarrow>
        itemPages data \<noteq> [] \<and> last (itemPages data) \<noteq> []
        \<and> finalHeight data
            = pageHeight (length (itemPages data) - 1) (last (itemPages data))"
    using ne inv by (simp add: itemPages_def finalHeight_def p)
  have 3: "items data = [] \<longrightarrow> InvoicePreview_pages data = []"
    by (simp add: InvoicePreview_pages_def placeAll_def paginator_constants)
  from 1 2 3 show ?thesis by blast
qed

theorem footer_page_witness:
  "items (exInvoice [] 0 0) = [] \<and> InvoicePreview_pages (exInvoice [] 0 0) = []
   \<and> items (exInvoice [exBigItem] 0 0) \<noteq> []
   \<and> itemPages (exInvoice [exBigItem] 0 0) = [[], [exBigItem]]
   \<and> finalHeight (exInvoice [exBigItem] 0 0) = 1085
   \<and> InvoicePreview_pages (exInvoice [exBigItem] 0 0)
       = itemPages (exInvoice [exBigItem] 0 0) @ [[]]"
  using footer_page [of "exInvoice [] 0 0"] footer_page [of "exInvoice [exBigItem] 0 0"]
  by (simp add: exInvoice_def itemPages_def finalHeight_def placeAll_def itemHeight_exBig
      paginator_constants)

section \<open>Properties of the editor\<close>

lemma filter_index_neq_snoc:
  "filter_index_neq i (xs @ [x])
     = filter_index_neq i xs @ (if length xs = i then [] else [x])"
  by (simp add: filter_index_neq_def)

lemma filter_index_neq_take_drop:
  "filter_index_neq i xs = take i xs @ drop (Suc i) xs"
proof (induction xs rule: rev_induct)
  case Nil
  then show ?case by (simp add: filter_index_neq_def)
next
  case (snoc x xs)
  show ?case
  proof (cases i "length xs" rule: linorder_cases)
    case less
    then show ?thesis using snoc by (simp add: filter_index_neq_snoc)
  next
    case equal
    then show ?thesis using snoc by (simp add: filter_index_neq_snoc)
  next
    case greater
    then show ?thesis using snoc by (simp add: filter_index_neq_snoc)
  qed
qed

lemma Math_max_one: "Math_max (Nonzero 1) (number_of_nat n) = number_of_nat (max 1 n)"
  by (cases "n = 0"; cases "n = 1") (auto simp: Math_max_def number_of_nat_def)

text \<open>
  Claim C10. When the per-item upload succeeds (some files were chosen and every one was
  converted), each item with the given id gets the new images appended and its quantity
  set to its new image count; removing the image at an index sets the quantity of each
  item with the given id to the maximum of 1 and the remaining image count (so removing
  the only image leaves the quantity 1). In both cases the other fields of such an item,
  the items with another id, the number and order of the items and the other fields of
  the invoice are unchanged.
\<close>

theorem image_count_sets_quantity:
  "(files \<noteq> [] \<and> those (map processImageFile files) = Some newUrls \<longrightarrow>
      handleAddImageToItem processImageFile itemId files data
        = data\<lparr>items := items (handleAddImageToItem processImageFile itemId files data)\<rparr>
      \<and> length (items (handleAddImageToItem processImageFile itemId files data))
          = length (items data)
      \<and> (\<forall>k < length (items data).
           (item_id (items data ! k) \<noteq> itemId \<longrightarrow>
              items (handleAddImageToItem processImageFile itemId files data) ! k
                = items data ! k)
           \<and> (item_id (items data ! k) = itemId \<longrightarrow>
              images (items (handleAddImageToItem processImageFile itemId files data) ! k)
                = images (items data ! k) @ newUrls
              \<and> quantity (items (handleAddImageToItem processImageFile itemId files data) ! k)
                = number_of_nat (length
                    (images (items (handleAddImageToItem processImageFile itemId files data) ! k)))
              \<and> same_other_fields (items data ! k)
                  (items (handleAddImageToItem processImageFile itemId files data) ! k))))
   \<and> handleRemoveImageFromItem itemId imageIndex data
        = data\<lparr>items := items (handleRemoveImageFromItem itemId imageIndex data)\<rparr>
   \<and> length (items (handleRemoveImageFromItem itemId imageIndex data)) = length (items data)
   \<and> (\<forall>k < length (items data).
         (item_id (items data ! k) \<noteq> itemId \<longrightarrow>
            items (handleRemoveImageFromItem itemId imageIndex data) ! k = items data ! k)
         \<and> (item_id (items data ! k) = itemId \<longrightarrow>
            images (items (handleRemoveImageFromItem itemId imageIndex data) ! k)
              = take imageIndex (images (items data ! k))
                  @ drop (Suc imageIndex) (images (items data ! k))
            \<and> quantity (items (handleRemoveImageFromItem itemId imageIndex data) ! k)
              = number_of_nat (max 1 (length
                  (images (items (handleRemoveImageFromItem itemId imageIndex data) ! k))))
            \<and> same_other_fields (items data ! k)
                (items (handleRemoveImageFromItem itemId imageIndex data) ! k)))"
  by (simp add: handleAddImageToItem_def handleRemoveImageFromItem_def Let_def
      filter_index_neq_take_drop same_other_fields_def Math_max_one)

theorem image_count_sets_quantity_witness:
  "[''f1'', ''f2''] \<noteq> [] \<and> those (map Some [''f1'', ''f2'']) = Some [''f1'', ''f2'']
   \<and> 1 < length (items exDraft)
   \<and> item_id (items exDraft ! 0) = ''a'' \<and> item_id (items exDraft ! 1) \<noteq> ''a''
   \<and> images (items (handleAddImageToItem Some ''a'' [''f1'', ''f2''] exDraft) ! 0)
       = [''x'', ''f1'', ''f2'']
   \<and> quantity (items (handleAddImageToItem Some ''a'' [''f1'', ''f2''] exDraft) ! 0)
       = Nonzero 3
   \<and> items (handleAddImageToItem Some ''a'' [''f1'', ''f2''] exDraft) ! 1 = items exDraft ! 1
   \<and> images (items (handleRemoveImageFromItem ''a'' 0 exDraft) ! 0) = []
   \<and> quantity (items (handleRemoveImageFromItem ''a'' 0 exDraft) ! 0) = Nonzero 1
   \<and> items (handleRemoveImageFromItem ''a'' 0 exDraft) ! 1 = items exDraft ! 1"
  using image_count_sets_quantity
          [of "[''f1'', ''f2'']" Some "[''f1'', ''f2'']" "''a''" exDraft 0]
  by (simp add: exDraft_def exInvoice_def exItem_def number_of_nat_def)

section \<open>Properties of the chunked persistence\<close>

text \<open>
  What the read path does restore. When the identifiers of the line items are pairwise
  distinct and free of underscores, and the child records are delivered in the order in
  which they were written, splicing them into the lightweight invoice gives back every
  field of the invoice except a page count of 0, which the lightweight record drops.
\<close>

lemma imageWrites_concat: "imageWrites invoice = concat (map writesOf (items invoice))"
  unfolding imageWrites_def writesOf_def by (rule refl)

lemma itemIdOf_key:
  "CHR ''_'' \<notin> set i \<Longrightarrow> itemIdOf (i @ CHR ''_'' # s) = i"
  by (induction i) (auto simp: itemIdOf_def)

lemma writesOf_payloads: "map snd (writesOf item) = images item"
proof -
  have "map snd (writesOf item) = map fst (zip (images item) [0..<length (images item)])"
    by (simp add: writesOf_def case_prod_unfold comp_def)
  then show ?thesis by simp
qed

lemma writesOf_keys:
  "CHR ''_'' \<notin> set (item_id item) \<Longrightarrow> d \<in> set (writesOf item) \<Longrightarrow> itemIdOf (fst d) = item_id item"
  by (auto simp: writesOf_def itemIdOf_key)

lemma addImageDoc_eq:
  "addImageDoc m d =
     m(itemIdOf (fst d) \<mapsto> (case m (itemIdOf (fst d)) of None \<Rightarrow> [] | Some xs \<Rightarrow> xs) @ [snd d])"
  by (simp add: addImageDoc_def Let_def split: option.splits)

lemma foldl_same_key:
  "\<forall>d \<in> set ds. itemIdOf (fst d) = k \<Longrightarrow>
     foldl addImageDoc m ds =
       (if ds = [] then m
        else m(k \<mapsto> (case m k of None \<Rightarrow> [] | Some xs \<Rightarrow> xs) @ map snd ds))"
proof (induction ds arbitrary: m)
  case Nil
  then show ?case by simp
next
  case (Cons d ds)
  have k: "itemIdOf (fst d) = k" using Cons.prems by simp
  have step: "addImageDoc m d = m(k \<mapsto> (case m k of None \<Rightarrow> [] | Some xs \<Rightarrow> xs) @ [snd d])"
    using addImageDoc_eq[of m d] k by simp
  have "foldl addImageDoc m (d # ds) = foldl addImageDoc (addImageDoc m d) ds"
    by simp
  also have "\<dots> = (if ds = [] then addImageDoc m d
        else (addImageDoc m d)(k \<mapsto> (case (addImageDoc m d) k of None \<Rightarrow> [] | Some xs \<Rightarrow> xs) @ map snd ds))"
    using Cons.IH[of "addImageDoc m d"] Cons.prems by simp
  also have "\<dots> = m(k \<mapsto> (case m k of None \<Rightarrow> [] | Some xs \<Rightarrow> xs) @ map snd (d # ds))"
    unfolding step by simp
  finally show ?case by simp
qed

lemma foldl_writesOf:
  "CHR ''_'' \<notin> set (item_id item) \<Longrightarrow>
     foldl addImageDoc m (writesOf item) =
       (if images item = [] then m
        else m(item_id item \<mapsto> (case m (item_id item) of None \<Rightarrow> [] | Some xs \<Rightarrow> xs) @ images item))"
  using foldl_same_key[of "writesOf item" "item_id item" m] writesOf_keys[of item]
  by (auto simp: writesOf_payloads) (auto simp: writesOf_def)

lemma foldl_other_key:
  "\<forall>item \<in> set its. CHR ''_'' \<notin> set (item_id item) \<and> item_id item \<noteq> k \<Longrightarrow>
     foldl addImageDoc m (concat (map writesOf its)) k = m k"
proof (induction its arbitrary: m)
  case Nil
  then show ?case by simp
next
  case (Cons x xs)
  then show ?case by (auto simp: foldl_writesOf)
qed

lemma foldl_item_key:
  "distinct (map item_id its) \<Longrightarrow> \<forall>item \<in> set its. CHR ''_'' \<notin> set (item_id item) \<Longrightarrow>
   \<forall>item \<in> set its. m (item_id item) = None \<Longrightarrow> it \<in> set its \<Longrightarrow>
     foldl addImageDoc m (concat (map writesOf its)) (item_id it)
       = (if images it = [] then None else Some (images it))"
proof (induction its arbitrary: m)
  case Nil
  then show ?case by simp
next
  case (Cons x xs)
  let ?m' = "foldl addImageDoc m (writesOf x)"
  have fresh: "item_id x \<notin> item_id ` set xs" and dist: "distinct (map item_id xs)"
    using Cons.prems(1) by simp_all
  have nu: "\<forall>item \<in> set xs. CHR ''_'' \<notin> set (item_id item)"
    and nux: "CHR ''_'' \<notin> set (item_id x)"
    using Cons.prems(2) by simp_all
  have none: "\<forall>item \<in> set xs. m (item_id item) = None" and nonex: "m (item_id x) = None"
    using Cons.prems(3) by simp_all
  have other: "\<forall>item \<in> set xs. item_id item \<noteq> item_id x"
    using fresh by (metis imageI)
  have m': "?m' = (if images x = [] then m else m(item_id x \<mapsto> images x))"
    using nux nonex by (simp add: foldl_writesOf)
  show ?case
  proof (cases "it = x")
    case True
    have "\<forall>item \<in> set xs. CHR ''_'' \<notin> set (item_id item) \<and> item_id item \<noteq> item_id x"
      using nu other by blast
    then have "foldl addImageDoc ?m' (concat (map writesOf xs)) (item_id x) = ?m' (item_id x)"
      by (rule foldl_other_key)
    then show ?thesis using True m' nonex by simp
  next
    case False
    then have mem: "it \<in> set xs" using Cons.prems(4) by simp
    have "\<forall>item \<in> set xs. ?m' (item_id item) = None"
      using none other by (simp add: m')
    then have "foldl addImageDoc ?m' (concat (map writesOf xs)) (item_id it)
                 = (if images it = [] then None else Some (images it))"
      using Cons.IH[of ?m'] dist nu mem by simp
    then show ?thesis by simp
  qed
qed

lemma reassembly_in_write_order:
  assumes "distinct (map item_id (items invoice))"
    and "\<forall>item \<in> set (items invoice). CHR ''_'' \<notin> set (item_id item)"
  shows "spliceImages (buildImageMap (imageWrites invoice)) (lightweightInvoice invoice)
           = invoice\<lparr>items := map (\<lambda>item. item\<lparr>pages := pages (cleanItem item)\<rparr>) (items invoice)\<rparr>"
proof -
  have key: "\<And>it. it \<in> set (items invoice) \<Longrightarrow>
      buildImageMap (imageWrites invoice) (item_id it)
        = (if images it = [] then None else Some (images it))"
    unfolding buildImageMap_def imageWrites_concat
    using assms by (intro foldl_item_key) simp_all
  have "map (\<lambda>item. item\<lparr>images := (case buildImageMap (imageWrites invoice) (item_id item) of
                                       Some imgs \<Rightarrow> imgs | None \<Rightarrow> images item)\<rparr>)
          (map cleanItem (items invoice))
        = map (\<lambda>item. item\<lparr>pages := pages (cleanItem item)\<rparr>) (items invoice)"
    using key by (auto simp: cleanItem_def)
  then show ?thesis
    by (simp add: spliceImages_def lightweightInvoice_def)
qed

lemma writes_exTwo: "imageWrites exTwo = [(''a_0'', ''x''), (''a_1'', ''y'')]"
  by code_simp

lemma exElevenById_eval:
  "exElevenById =
     [(''a_0'', ''i0''), (''a_1'', ''i1''), (''a_10'', ''i10''), (''a_2'', ''i2''),
      (''a_3'', ''i3''), (''a_4'', ''i4''), (''a_5'', ''i5''), (''a_6'', ''i6''),
      (''a_7'', ''i7''), (''a_8'', ''i8''), (''a_9'', ''i9'')]"
  by code_simp

text \<open>
  Claim C1 does not hold of the code: \<^verbatim>\<open>fetchInvoiceImages\<close> appends the payloads in the
  order in which the child records are delivered and never reads the index after the
  underscore. An item with eleven images, whose child records are delivered in
  ascending order of their ids (\<open>a_10\<close> between \<open>a_1\<close> and \<open>a_2\<close>), comes back with its
  eleventh image in third place; an item with two images whose records are delivered in
  reverse order comes back with the two images swapped. Neither result is the original
  invoice.
\<close>

theorem reassembly_follows_fetch_order:
  "fst (fetchInvoiceImages True False (Inr exElevenById) (lightweightInvoice exEleven))
     = exInvoice [exItem ''a'' 1500 11
                    [''i0'', ''i1'', ''i10'', ''i2'', ''i3'', ''i4'', ''i5'', ''i6'', ''i7'',
                     ''i8'', ''i9'']] 0 0
   \<and> fst (fetchInvoiceImages True False (Inr exElevenById) (lightweightInvoice exEleven))
     \<noteq> exEleven
   \<and> fst (fetchInvoiceImages True False (Inr (rev (imageWrites exTwo)))
            (lightweightInvoice exTwo))
     = exInvoice [exItem ''a'' 100 2 [''y'', ''x'']] 0 0
   \<and> fst (fetchInvoiceImages True False (Inr (rev (imageWrites exTwo)))
            (lightweightInvoice exTwo))
     \<noteq> exTwo"
  by code_simp

text \<open>
  Claim C9. If at least one line item of the invoice holds at least one image,
  \<^verbatim>\<open>fetchInvoiceImages\<close> returns the invoice unchanged and makes no remote call, and
  \<^verbatim>\<open>handleEditInvoice\<close> opens exactly that invoice without touching the trace, so the
  items without images stay without. A remote call is made only when the store is
  configured and ONLINE and every item's image list is empty; in that case the child
  records are fetched and spliced into the items.
\<close>

theorem edit_fetches_only_imageless:
  "((\<exists>item \<in> set (items invoice). images item \<noteq> []) \<longrightarrow>
      fetchInvoiceImages cfg off answer invoice = (invoice, [])
      \<and> handleEditInvoice cfg answer invoice a
          = a\<lparr>activeInvoice := Some invoice, currentView := CREATE_INVOICE\<rparr>)
   \<and> (snd (fetchInvoiceImages cfg off answer invoice) \<noteq> [] \<longrightarrow>
        cfg \<and> \<not> off \<and> (\<forall>item \<in> set (items invoice). images item = []))
   \<and> (cfg \<and> \<not> off \<and> (\<forall>item \<in> set (items invoice). images item = []) \<longrightarrow>
        fetchInvoiceImages cfg off (Inr docs) invoice
          = (spliceImages (buildImageMap docs) invoice,
             [Remote (GetDocs_invoiceImages (inv_id invoice))]))"
  by (auto simp: fetchInvoiceImages_def handleEditInvoice_def emit_def list_ex_iff Let_def
      split: sum.splits)

theorem edit_fetches_only_imageless_witness:
  "(\<exists>item \<in> set (items exDraft). images item \<noteq> [])
   \<and> fetchInvoiceImages True False (Inr [(''b_0'', ''z'')]) exDraft = (exDraft, [])
   \<and> images (items exDraft ! 1) = []
   \<and> list_all (\<lambda>item. images item = []) (items (lightweightInvoice exTwo))
   \<and> fetchInvoiceImages True False (Inr (imageWrites exTwo)) (lightweightInvoice exTwo)
       = (exTwo, [Remote (GetDocs_invoiceImages ''inv1'')])"
proof -
  have h1: "\<exists>item \<in> set (items exDraft). images item \<noteq> []"
    by code_simp
  have h2: "True \<and> \<not> False
            \<and> (\<forall>item \<in> set (items (lightweightInvoice exTwo)). images item = [])"
    by code_simp
  have e: "spliceImages (buildImageMap (imageWrites exTwo)) (lightweightInvoice exTwo) = exTwo"
    "inv_id (lightweightInvoice exTwo) = ''inv1''" "images (items exDraft ! 1) = []"
    by code_simp+
  from h1 edit_fetches_only_imageless
         [where invoice = exDraft and cfg = True and off = False
            and answer = "Inr [(''b_0'', ''z'')]"]
  have "fetchInvoiceImages True False (Inr [(''b_0'', ''z'')]) exDraft = (exDraft, [])"
    by blast
  moreover from h2 edit_fetches_only_imageless
         [where invoice = "lightweightInvoice exTwo" and cfg = True and off = False
            and docs = "imageWrites exTwo"]
  have "fetchInvoiceImages True False (Inr (imageWrites exTwo)) (lightweightInvoice exTwo)
          = (spliceImages (buildImageMap (imageWrites exTwo)) (lightweightInvoice exTwo),
             [Remote (GetDocs_invoiceImages (inv_id (lightweightInvoice exTwo)))])"
    by blast
  ultimately show ?thesis using h1 h2 e by (simp add: list_all_iff)
qed

section \<open>Properties of the dual-backend store\<close>

lemma emit_fields [simp]:
  "invoices (emit es a) = invoices a" "clients (emit es a) = clients a"
  "projects (emit es a) = projects a" "appSettings (emit es a) = appSettings a"
  "activeInvoice (emit es a) = activeInvoice a" "isOffline (emit es a) = isOffline a"
  "localStorage (emit es a) = localStorage a" "trace (emit es a) = trace a @ es"
  "currentView (emit es a) = currentView a"
  by (simp_all add: emit_def)

lemma sync_fields [simp]:
  "invoices (syncToLocalStorage lr i c p s a) = invoices a"
  "clients (syncToLocalStorage lr i c p s a) = clients a"
  "projects (syncToLocalStorage lr i c p s a) = projects a"
  "appSettings (syncToLocalStorage lr i c p s a) = appSettings a"
  "activeInvoice (syncToLocalStorage lr i c p s a) = activeInvoice a"
  "isOffline (syncToLocalStorage lr i c p s a) = isOffline a"
  "currentView (syncToLocalStorage lr i c p s a) = currentView a"
  by (simp_all add: syncToLocalStorage_def Let_def split: local_result.splits storage_key.splits)

lemma sync_stored [simp]:
  "localStorage (syncToLocalStorage Stored i c p s a) = snapshot (i, c, p, s)"
  "trace (syncToLocalStorage Stored i c p s a) = trace a @ [LocalSync i c p s]"
  by (simp_all add: syncToLocalStorage_def)

lemma sync_trace:
  "\<exists>e. trace (syncToLocalStorage lr i c p s a) = trace a @ [e] \<and> \<not> is_remote e"
  by (simp add: syncToLocalStorage_def Let_def split: local_result.splits storage_key.splits)

lemma load_fields [simp]:
  "isOffline (loadFromLocalStorage a) = isOffline a"
  "trace (loadFromLocalStorage a) = trace a"
  by (simp_all add: loadFromLocalStorage_def Let_def split: option.splits)

lemmas handler_defs =
  handleDeleteInvoice_def handleSaveInvoice_def handleSaveSettings_def
  handleSaveClient_def handleSaveProject_def

lemma list_ex_image: "list_ex (\<lambda>x. f x = k) xs = (k \<in> f ` set xs)"
  by (auto simp: list_ex_iff)

lemma run_snoc: "run cfg a (ms @ [m]) = step cfg (run cfg a ms) m"
  by (simp add: run_def)

lemma run_Cons: "run cfg a (m # ms) = run cfg (step cfg a m) ms"
  by (simp add: run_def)

subsection \<open>The local store mirrors the memory\<close>

lemma step_collections:
  "mutating (activeInvoice a) m \<Longrightarrow>
     collections (step cfg a m) = spec_change (activeInvoice a) m (collections a)"
  by (cases m; cases "activeInvoice a")
     (auto simp: handler_defs collections_def Let_def list_ex_image split: outcome.splits)

lemma step_mirror:
  "mutating (activeInvoice a) m \<Longrightarrow> locallyStored m \<Longrightarrow>
     localStorage (step cfg a m) = snapshot (collections (step cfg a m))"
  by (cases m; cases "activeInvoice a")
     (auto simp: handler_defs collections_def Let_def split: outcome.splits)

lemma step_local_first:
  "mutating (activeInvoice a) m \<Longrightarrow> locallyStored m \<Longrightarrow>
     \<exists>rest. trace (step cfg a m) = trace a @ syncOf (collections (step cfg a m)) # rest
            \<and> (\<forall>e \<in> set rest. \<not> is_local e)"
  by (cases m; cases "activeInvoice a")
     (auto simp: handler_defs collections_def Let_def split: outcome.splits)

lemma step_unchanged:
  "\<not> mutating (activeInvoice a) m \<Longrightarrow> \<not> importing m \<Longrightarrow>
     collections (step cfg a m) = collections a \<and> localStorage (step cfg a m) = localStorage a"
  by (cases m rule: importing.cases; cases "activeInvoice a")
     (auto simp: handler_defs collections_def Let_def handleCreateNewInvoice_def
        handleEditInvoice_def handleImportData_def split: prod.splits option.splits)

lemma step_change_of:
  "collections (step cfg a m) = change_of (activeInvoice a) m (collections a)"
proof (cases "importing m")
  case True
  then obtain json lr where m: "m = ImportData (Some json) True lr"
    by (cases m rule: importing.cases) auto
  show ?thesis
    by (simp add: m handleImportData_def collections_def Let_def split: option.splits)
next
  case False
  show ?thesis
  proof (cases "mutating (activeInvoice a) m")
    case True
    then have "change_of (activeInvoice a) m (collections a)
                 = spec_change (activeInvoice a) m (collections a)"
      by (cases m) auto
    then show ?thesis using True by (simp add: step_collections)
  next
    case nm: False
    have "change_of (activeInvoice a) m (collections a) = collections a"
      using False nm by (cases m rule: importing.cases) auto
    then show ?thesis using step_unchanged[OF nm False] by simp
  qed
qed

lemma step_mirrored:
  "locallyStored m \<Longrightarrow> mirrored a \<Longrightarrow> mirrored (step cfg a m)"
proof (cases "importing m")
  case True
  assume ls: "locallyStored m"
  from True obtain json lr where m: "m = ImportData (Some json) True lr"
    by (cases m rule: importing.cases) auto
  with ls have "lr = Stored" by simp
  then show ?thesis
    by (simp add: m mirrored_def handleImportData_def collections_def Let_def
        split: option.splits)
next
  case False
  assume ls: "locallyStored m" and mi: "mirrored a"
  show ?thesis
  proof (cases "mutating (activeInvoice a) m")
    case True
    then show ?thesis using ls by (simp add: mirrored_def step_mirror)
  next
    case nm: False
    then show ?thesis using step_unchanged[OF nm False] mi by (simp add: mirrored_def)
  qed
qed

lemma run_mirrored:
  "list_all locallyStored ins \<Longrightarrow> mirrored a \<Longrightarrow> mirrored (run cfg a ins)"
  by (induction ins arbitrary: a) (simp_all add: run_def step_mirrored)

lemma run_changes:
  "collections (run cfg a ins) = foldl (\<lambda>c f. f c) (collections a) (changes cfg a ins)"
  by (induction ins arbitrary: a) (simp_all add: run_def step_change_of)

text \<open>
  Claim C3 as stated fails: the write to the local store is not unconditional. In a
  session that is ONLINE, an invoice save whose first \<^verbatim>\<open>setItem\<close> throws leaves the
  invoice in memory only: the local store still holds the old, empty list of invoices,
  and the handler ends before its remote write, so the trace has no new remote call.
\<close>

theorem local_write_can_throw:
  "mutating (activeInvoice exOnline) (SaveInvoice (Throws PbInvoices) Succeeded)
   \<and> \<not> isOffline exOnline
   \<and> invoices (step True exOnline (SaveInvoice (Throws PbInvoices) Succeeded)) = [exTwo]
   \<and> pb_invoices (localStorage (step True exOnline (SaveInvoice (Throws PbInvoices) Succeeded)))
       = Some []
   \<and> filter is_remote (trace (step True exOnline (SaveInvoice (Throws PbInvoices) Succeeded)))
       = filter is_remote (trace exOnline)"
  by code_simp

text \<open>
  Claim C3, amended. Each of the five mutating operations, whatever the connectivity
  state, the configuration and the outcome of the local and of the remote write, first
  applies its change to the in-memory collections. Provided its write to the local
  store does not throw, the local store then holds exactly the four in-memory
  collections, and that write of the new snapshot is the first thing the operation does
  to the outside world, every remote call and alert coming after it. An input that is
  neither a mutating operation nor an import leaves the collections and the local store
  as they are; so, once the local store equals the memory, it stays equal through every
  sequence of inputs whose local writes do not throw. After any sequence of inputs the
  in-memory collections are the inputs' changes applied in order, none lost.
\<close>

theorem local_write_first:
  "(mutating (activeInvoice a) m \<longrightarrow>
      collections (step cfg a m) = spec_change (activeInvoice a) m (collections a))
   \<and> (mutating (activeInvoice a) m \<and> locallyStored m \<longrightarrow>
      localStorage (step cfg a m) = snapshot (collections (step cfg a m))
      \<and> (\<exists>rest. trace (step cfg a m) = trace a @ syncOf (collections (step cfg a m)) # rest
                 \<and> (\<forall>e \<in> set rest. \<not> is_local e)))
   \<and> (\<not> mutating (activeInvoice a) m \<and> \<not> importing m \<longrightarrow>
      collections (step cfg a m) = collections a
      \<and> localStorage (step cfg a m) = localStorage a)
   \<and> (list_all locallyStored ins \<and> mirrored a \<longrightarrow> mirrored (run cfg a ins))
   \<and> collections (run cfg a ins)
       = foldl (\<lambda>c f. f c) (collections a) (changes cfg a ins)"
proof (intro conjI impI)
  assume "mutating (activeInvoice a) m"
  then show "collections (step cfg a m) = spec_change (activeInvoice a) m (collections a)"
    by (rule step_collections)
next
  assume h: "mutating (activeInvoice a) m \<and> locallyStored m"
  then show "localStorage (step cfg a m) = snapshot (collections (step cfg a m))"
    by (simp add: step_mirror)
  from h show "\<exists>rest. trace (step cfg a m) = trace a @ syncOf (collections (step cfg a m)) # rest
                 \<and> (\<forall>e \<in> set rest. \<not> is_local e)"
    by (simp add: step_local_first)
next
  assume h: "\<not> mutating (activeInvoice a) m \<and> \<not> importing m"
  then show "collections (step cfg a m) = collections a"
    and "localStorage (step cfg a m) = localStorage a"
    using step_unchanged[of a m cfg] by simp_all
next
  assume "list_all locallyStored ins \<and> mirrored a"
  then show "mirrored (run cfg a ins)"
    by (simp add: run_mirrored)
next
  show "collections (run cfg a ins)
          = foldl (\<lambda>c f. f c) (collections a) (changes cfg a ins)"
    by (rule run_changes)
qed

theorem local_write_first_witness:
  "mutating (activeInvoice exOffline) (SaveClient exClient Stored Succeeded)
   \<and> locallyStored (SaveClient exClient Stored Succeeded)
   \<and> isOffline exOffline
   \<and> localStorage (step True exOffline (SaveClient exClient Stored Succeeded))
       = snapshot ([exTwo], [exClient], [], defaultAppSettings)
   \<and> \<not> mutating (activeInvoice exOffline) (EditorSetData exDraft)
   \<and> \<not> importing (EditorSetData exDraft)
   \<and> localStorage (step True exOffline (EditorSetData exDraft)) = localStorage exOffline
   \<and> list_all locallyStored
        [SaveClient exClient Stored Succeeded, EditorSetData exDraft,
         SaveInvoice Stored (Failed ''unavailable''),
         DeleteInvoice ''inv1'' True Stored Succeeded,
         SaveSettings exSettings Stored Succeeded]
   \<and> mirrored exOffline
   \<and> mirrored
        (run True exOffline
           [SaveClient exClient Stored Succeeded, EditorSetData exDraft,
            SaveInvoice Stored (Failed ''unavailable''),
            DeleteInvoice ''inv1'' True Stored Succeeded,
            SaveSettings exSettings Stored Succeeded])
   \<and> collections
        (run True exOffline
           [SaveClient exClient Stored Succeeded, EditorSetData exDraft,
            SaveInvoice Stored (Failed ''unavailable''),
            DeleteInvoice ''inv1'' True Stored Succeeded,
            SaveSettings exSettings Stored Succeeded])
       = ([], [exClient], [], exSettings)"
proof -
  let ?ms = "[SaveClient exClient Stored Succeeded, EditorSetData exDraft,
              SaveInvoice Stored (Failed ''unavailable''),
              DeleteInvoice ''inv1'' True Stored Succeeded,
              SaveSettings exSettings Stored Succeeded]"
  note inst1 = local_write_first
      [where a = exOffline and cfg = True and m = "SaveClient exClient Stored Succeeded"
         and ins = ?ms]
  note inst2 = local_write_first
      [where a = exOffline and cfg = True and m = "EditorSetData exDraft" and ins = "[]"]
  have h1: "mutating (activeInvoice exOffline) (SaveClient exClient Stored Succeeded)
            \<and> locallyStored (SaveClient exClient Stored Succeeded)"
    by simp
  have h2: "\<not> mutating (activeInvoice exOffline) (EditorSetData exDraft)
            \<and> \<not> importing (EditorSetData exDraft)"
    by simp
  have h3: "list_all locallyStored ?ms"
    by simp
  have off: "isOffline exOffline"
    by code_simp
  have mi: "mirrored exOffline"
    by code_simp
  have c1: "spec_change (activeInvoice exOffline) (SaveClient exClient Stored Succeeded)
              (collections exOffline) = ([exTwo], [exClient], [], defaultAppSettings)"
    by code_simp
  have c2: "foldl (\<lambda>c f. f c) (collections exOffline) (changes True exOffline ?ms)
              = ([], [exClient], [], exSettings)"
    by code_simp
  from h1 inst1
  have r1: "localStorage (step True exOffline (SaveClient exClient Stored Succeeded))
          = snapshot (spec_change (activeInvoice exOffline)
                        (SaveClient exClient Stored Succeeded) (collections exOffline))"
    by metis
  from h2 inst2
  have r2: "localStorage (step True exOffline (EditorSetData exDraft)) = localStorage exOffline"
    by metis
  from h3 mi inst1
  have r3: "mirrored (run True exOffline ?ms)"
    by metis
  from inst1
  have r4: "collections (run True exOffline ?ms)
              = foldl (\<lambda>c f. f c) (collections exOffline) (changes True exOffline ?ms)"
    by metis
  show ?thesis
    using h1 h2 h3 off mi r1 r2 r3 r4 c1 c2 by simp
qed

subsection \<open>ONLINE and OFFLINE\<close>

lemma sync_not_remote [simp]:
  "filter is_remote (trace (syncToLocalStorage lr i c p s a)) = filter is_remote (trace a)"
  by (simp add: syncToLocalStorage_def Let_def split: local_result.splits storage_key.splits)

lemma step_offline_sticky:
  "isOffline a \<Longrightarrow>
     isOffline (step cfg a m)
     \<and> filter is_remote (trace (step cfg a m)) = filter is_remote (trace a)"
  by (cases m; cases "activeInvoice a")
     (auto simp: handler_defs Let_def handleCreateNewInvoice_def handleEditInvoice_def
        fetchInvoiceImages_def handleImportData_def split: outcome.splits option.splits)

lemma run_offline_sticky:
  "isOffline a \<Longrightarrow>
     isOffline (run cfg a ins)
     \<and> filter is_remote (trace (run cfg a ins)) = filter is_remote (trace a)"
proof (induction ins rule: rev_induct)
  case Nil
  then show ?case by (simp add: run_def)
next
  case (snoc m ms)
  then show ?case
    using step_offline_sticky[of "run cfg a ms" cfg m] by (simp add: run_snoc)
qed

lemma boot_unconfigured:
  "\<not> cfg \<Longrightarrow> isOffline (fetchData cfg env a) \<and> trace (fetchData cfg env a) = trace a"
  by (simp add: fetchData_def)

lemma session_unconfigured:
  "\<not> cfg \<Longrightarrow>
     isOffline (session cfg env store ins)
     \<and> filter is_remote (trace (session cfg env store ins)) = []"
  using boot_unconfigured[of cfg env "initialApp store"]
    run_offline_sticky[of "fetchData cfg env (initialApp store)" cfg ins]
  by (simp add: session_def initialApp_def)

lemma boot_offline_iff:
  "isOffline (fetchData cfg env a) = (\<not> (cfg \<and> bootReadsOk env \<and> r_local env = Stored))"
  by (simp add: fetchData_def bootReadsOk_def connectionFailed_def Let_def
      split: sum.splits)

lemma step_connection_failure:
  "connectionFailure (activeInvoice a) m \<Longrightarrow> cfg \<Longrightarrow> \<not> isOffline a
   \<Longrightarrow> isOffline (step cfg a m)"
  by (cases "(activeInvoice a, m)" rule: connectionFailure.cases)
     (auto simp: handler_defs Let_def sizeLimitError_def)

lemma step_size_limit:
  "sizeLimitError message \<Longrightarrow> \<not> isOffline a
   \<Longrightarrow> \<not> isOffline (step cfg a (SaveInvoice localResult (Failed message)))"
  by (cases "activeInvoice a") (auto simp: handler_defs Let_def sizeLimitError_def)

lemma step_edit_online:
  "\<not> isOffline a \<Longrightarrow> \<not> isOffline (step cfg a (EditInvoice invoice answer))"
  by (auto simp: handleEditInvoice_def split: prod.splits)

text \<open>
  Claim C4 as stated fails: not every failing remote operation takes the store OFFLINE.
  In a session that is ONLINE, an invoice save whose batch is rejected for its size
  leaves the store ONLINE, and so does a failed fetch of the child image records when
  an invoice is opened; in both cases the next operation, saving a client, writes to the
  remote store.
\<close>

theorem failure_without_transition:
  "\<not> isOffline (step True exOnline (SaveInvoice Stored (Failed exTooLarge)))
   \<and> Remote (SetDoc_client exClient)
       \<in> set (trace (run True exOnline
                        [SaveInvoice Stored (Failed exTooLarge), SaveClient exClient Stored Succeeded]))
   \<and> \<not> isOffline (step True exOnline
                    (EditInvoice (lightweightInvoice exTwo) (Inl ''unavailable'')))
   \<and> Remote (SetDoc_client exClient)
       \<in> set (trace (run True exOnline
                        [EditInvoice (lightweightInvoice exTwo) (Inl ''unavailable''),
                         SaveClient exClient Stored Succeeded]))"
  by code_simp

text \<open>
  Claim C4, amended. After the bootstrap the store is ONLINE exactly when the remote
  configuration is present, the four bootstrap reads succeeded and the snapshot read
  was stored locally (a failed seeding of the settings does not matter); without
  configuration every state of the session is
  OFFLINE and the session makes no remote call at all. The store goes from ONLINE to
  OFFLINE when a mutating operation reaches its remote write and that write fails for
  a reason other than the size limit; an invoice save that fails for the size limit and a failed fetch of
  the child image records leave it ONLINE. Once OFFLINE the store stays OFFLINE, and no
  later operation of the session makes any remote read or write.
\<close>

theorem offline_is_sticky:
  "(isOffline (fetchData cfg env (initialApp store))
      \<longleftrightarrow> \<not> (cfg \<and> bootReadsOk env \<and> r_local env = Stored))
   \<and> (\<not> cfg \<longrightarrow>
        isOffline (session cfg env store ins)
        \<and> filter is_remote (trace (session cfg env store ins)) = [])
   \<and> (isOffline a \<longrightarrow>
        isOffline (run cfg a ins)
        \<and> filter is_remote (trace (run cfg a ins)) = filter is_remote (trace a))
   \<and> (cfg \<and> \<not> isOffline a \<and> connectionFailure (activeInvoice a) m \<longrightarrow>
        isOffline (step cfg a m))
   \<and> (\<not> isOffline a \<and> sizeLimitError message \<longrightarrow>
        \<not> isOffline (step cfg a (SaveInvoice localResult (Failed message))))
   \<and> (\<not> isOffline a \<longrightarrow> \<not> isOffline (step cfg a (EditInvoice invoice answer)))"
proof (intro conjI impI)
  show "isOffline (fetchData cfg env (initialApp store))
          = (\<not> (cfg \<and> bootReadsOk env \<and> r_local env = Stored))"
    by (rule boot_offline_iff)
next
  assume "\<not> cfg"
  then show "isOffline (session cfg env store ins)"
    and "filter is_remote (trace (session cfg env store ins)) = []"
    using session_unconfigured by simp_all
next
  assume "isOffline a"
  then show "isOffline (run cfg a ins)"
    and "filter is_remote (trace (run cfg a ins)) = filter is_remote (trace a)"
    using run_offline_sticky by simp_all
next
  assume "cfg \<and> \<not> isOffline a \<and> connectionFailure (activeInvoice a) m"
  then show "isOffline (step cfg a m)"
    using step_connection_failure by simp
next
  assume "\<not> isOffline a \<and> sizeLimitError message"
  then show "\<not> isOffline (step cfg a (SaveInvoice localResult (Failed message)))"
    using step_size_limit by blast
next
  assume "\<not> isOffline a"
  then show "\<not> isOffline (step cfg a (EditInvoice invoice answer))"
    by (rule step_edit_online)
qed

theorem offline_is_sticky_witness:
  "isOffline (session False exBoot exStore [SaveClient exClient Stored Succeeded])
   \<and> filter is_remote (trace (session False exBoot exStore [SaveClient exClient Stored Succeeded]))
       = []
   \<and> \<not> isOffline exOnline
   \<and> connectionFailure (activeInvoice exOnline) (SaveInvoice Stored (Failed ''unavailable''))
   \<and> isOffline exOffline
   \<and> isOffline (run True exOffline [SaveClient exClient Stored Succeeded, SaveInvoice Stored Succeeded])
   \<and> filter is_remote
        (trace (run True exOffline [SaveClient exClient Stored Succeeded, SaveInvoice Stored Succeeded]))
       = filter is_remote (trace exOffline)
   \<and> sizeLimitError exTooLarge
   \<and> \<not> isOffline (step True exOnline (SaveInvoice Stored (Failed exTooLarge)))
   \<and> \<not> isOffline (step True exOnline (EditInvoice exDraft (Inl ''unavailable'')))"
proof -
  have on: "\<not> isOffline exOnline"
    by code_simp
  have cf: "connectionFailure (activeInvoice exOnline) (SaveInvoice Stored (Failed ''unavailable''))"
    by code_simp
  have sl: "sizeLimitError exTooLarge"
    by code_simp
  have 1: "isOffline (session False exBoot exStore [SaveClient exClient Stored Succeeded])
           \<and> filter is_remote
                (trace (session False exBoot exStore [SaveClient exClient Stored Succeeded])) = []"
    using offline_is_sticky
            [where cfg = False and env = exBoot and store = exStore
               and ins = "[SaveClient exClient Stored Succeeded]"]
    by blast
  have 2: "isOffline exOffline"
    using on cf
      offline_is_sticky
        [where cfg = True and a = exOnline and m = "SaveInvoice Stored (Failed ''unavailable'')"]
    unfolding exOffline_def by blast
  have 3: "isOffline (run True exOffline [SaveClient exClient Stored Succeeded, SaveInvoice Stored Succeeded])
           \<and> filter is_remote
                (trace (run True exOffline
                          [SaveClient exClient Stored Succeeded, SaveInvoice Stored Succeeded]))
               = filter is_remote (trace exOffline)"
    using 2
      offline_is_sticky
        [where cfg = True and a = exOffline
           and ins = "[SaveClient exClient Stored Succeeded, SaveInvoice Stored Succeeded]"]
    by blast
  have 4: "\<not> isOffline (step True exOnline (SaveInvoice Stored (Failed exTooLarge)))"
    using on sl
      offline_is_sticky [where cfg = True and a = exOnline and message = exTooLarge]
    by blast
  have 5: "\<not> isOffline (step True exOnline (EditInvoice exDraft (Inl ''unavailable'')))"
    using on
      offline_is_sticky
        [where cfg = True and a = exOnline and invoice = exDraft
           and answer = "Inl ''unavailable''"]
    by blast
  from on cf sl 1 2 3 4 5 show ?thesis by blast
qed

text \<open>
  Claim C5 does not hold of the code for the settings. In a session that is ONLINE, a
  settings save whose remote write is rejected because the document exceeds the maximum
  size takes the store OFFLINE and reports the generic message about a lost connection;
  the invoice save, given the same error, stays ONLINE and reports the message about the
  image size.
\<close>

theorem settings_size_limit_goes_offline:
  "sizeLimitError exTooLarge \<and> \<not> isOffline exOnline
   \<and> isOffline (handleSaveSettings True Stored (Failed exTooLarge) exSettings exOnline)
   \<and> last (trace (handleSaveSettings True Stored (Failed exTooLarge) exSettings exOnline))
       = Alert ''Connection lost. Settings saved locally.''
   \<and> \<not> isOffline (handleSaveInvoice True Stored (Failed exTooLarge) exOnline)
   \<and> last (trace (handleSaveInvoice True Stored (Failed exTooLarge) exOnline))
       = Alert ''One of the images is too large. Please try a smaller image.''"
  by code_simp

end
